theory Spec2Isabelle
  imports Complex_Main "HOL-Library.AList"
begin

section \<open>JavaScript values used by the analyzers\<close>

text \<open>
  The token counts of \<^verbatim>\<open>scripts/context-analyzer.js\<close> are JavaScript numbers. Every
  number the analyzers produce is an integer, except that adding \<^verbatim>\<open>undefined\<close> to a
  number gives \<^verbatim>\<open>NaN\<close>, and \<^verbatim>\<open>NaN\<close> absorbs every later addition and fails every
  comparison.
\<close>

datatype jsnum = Num int | NaN

fun js_add :: "jsnum \<Rightarrow> jsnum \<Rightarrow> jsnum" where
  "js_add (Num a) (Num b) = Num (a + b)"
| "js_add (Num a) NaN = NaN"
| "js_add NaN b = NaN"

fun js_gt :: "jsnum \<Rightarrow> int \<Rightarrow> bool" where
  "js_gt (Num a) b = (b < a)"
| "js_gt NaN b = False"

fun is_integer :: "jsnum \<Rightarrow> bool" where
  "is_integer (Num a) = True"
| "is_integer NaN = False"

text \<open>\<^verbatim>\<open>ToNumber\<close> of a property that holds an integer or is \<^verbatim>\<open>undefined\<close> (\<open>None\<close>).\<close>

fun to_number :: "int option \<Rightarrow> jsnum" where
  "to_number (Some n) = Num n"
| "to_number None = NaN"

text \<open>
  A plain object is the list of its own properties in insertion order, each key once.
  The assignment \<^verbatim>\<open>obj[k] = v\<close> updates in place or appends; for the key
  \<^verbatim>\<open>__proto__\<close> it runs the inherited setter and creates no own property.
  A \<^verbatim>\<open>Map\<close> is the same list without that exception.
\<close>

type_synonym 'v object = "(string \<times> 'v) list"

definition set_property :: "string \<Rightarrow> 'v \<Rightarrow> 'v object \<Rightarrow> 'v object" where
  "set_property k v obj = (if k = ''__proto__'' then obj else AList.update k v obj)"

definition Object_keys :: "'v object \<Rightarrow> string list" where
  "Object_keys obj = map fst obj"

text \<open>
  The names every object literal inherits from \<^verbatim>\<open>Object.prototype\<close>; each of them reads
  as a truthy value (a function, or the prototype object itself for \<^verbatim>\<open>__proto__\<close>)
  that has no \<^verbatim>\<open>total\<close> and no \<^verbatim>\<open>tools\<close> property.
\<close>

definition Object_prototype_names :: "string list" where
  "Object_prototype_names =
     [''constructor'', ''__defineGetter__'', ''__defineSetter__'', ''hasOwnProperty'',
      ''__lookupGetter__'', ''__lookupSetter__'', ''isPrototypeOf'',
      ''propertyIsEnumerable'', ''toString'', ''valueOf'', ''__proto__'',
      ''toLocaleString'']"

text \<open>\<^verbatim>\<open>s.endsWith(suf)\<close> and \<^verbatim>\<open>xs.slice(-n)\<close>.\<close>

definition endsWith :: "string \<Rightarrow> string \<Rightarrow> bool" where
  "endsWith s suf = (length suf \<le> length s \<and> drop (length s - length suf) s = suf)"

definition slice_last :: "nat \<Rightarrow> 'a list \<Rightarrow> 'a list" where
  "slice_last n xs = drop (length xs - n) xs"

section \<open>The token estimator\<close>

text \<open>
  \<^verbatim>\<open>const estimateTokens = (text) => Math.ceil(text.length / 4);\<close> (line 17, and again
  in the simplified analyzer, line 869). Only the length of the string is read, its
  number of UTF-16 code units: a character of the model stands for one code unit.
  Dividing a length by 4 is exact in double precision.
\<close>

definition estimateTokens :: "string \<Rightarrow> int" where
  "estimateTokens text = \<lceil>real (length text) / 4\<rceil>"

definition estimateTokens_simple :: "string \<Rightarrow> int" where
  "estimateTokens_simple text = \<lceil>real (length text) / 4\<rceil>"

section \<open>The module-level cache\<close>

record file_entry =
  entry_tokens :: int
  entry_timestamp :: int

type_synonym tool = "string \<times> int"

record mcp_snapshot =
  snap_total :: jsnum
  snap_breakdown :: "int option object"
  snap_detailed :: "tool list option object"

record agents_snapshot =
  asnap_total :: int
  asnap_breakdown :: "int object"

text \<open>
  The object \<^verbatim>\<open>cache\<close> (lines 35-44); \<open>None\<close> is \<^verbatim>\<open>null\<close>. Its \<^verbatim>\<open>ttl\<close> and
  \<^verbatim>\<open>fileCacheTtl\<close> never change and are the two constants below.
\<close>

record cache =
  cache_mcpTools :: "mcp_snapshot option"
  cache_customAgents :: "agents_snapshot option"
  cache_memoryFiles :: "int option"
  cache_timestamp :: "int option"
  cache_projectPath :: "string option"
  fileCache :: "(string \<times> file_entry) list"

definition cache_ttl :: int where
  "cache_ttl = 300000"

definition fileCacheTtl :: int where
  "fileCacheTtl = 600000"

definition empty_cache :: cache where
  "empty_cache = \<lparr>cache_mcpTools = None, cache_customAgents = None, cache_memoryFiles = None,
     cache_timestamp = None, cache_projectPath = None, fileCache = []\<rparr>"

text \<open>
  \<^verbatim>\<open>isCacheValid\<close> (lines 46-50) at the clock reading \<open>now\<close>. A timestamp that is
  \<^verbatim>\<open>null\<close> or \<open>0\<close> is falsy.
\<close>

definition isCacheValid :: "int \<Rightarrow> cache \<Rightarrow> string \<Rightarrow> bool" where
  "isCacheValid now c projectPath =
     (case cache_timestamp c of
        None \<Rightarrow> False
      | Some t \<Rightarrow> t \<noteq> 0 \<and> cache_projectPath c = Some projectPath \<and> now - t < cache_ttl)"

definition isFileCacheValid :: "int \<Rightarrow> cache \<Rightarrow> string \<Rightarrow> bool" where
  "isFileCacheValid now c filePath =
     (case map_of (fileCache c) filePath of
        None \<Rightarrow> False
      | Some entry \<Rightarrow> now - entry_timestamp entry < fileCacheTtl)"

text \<open>
  \<^verbatim>\<open>cleanupCache\<close> (lines 58-88): drop the expired file entries, reset the snapshot when
  it has expired, and when more than 100 file entries remain sort them by timestamp
  (\<^verbatim>\<open>Array.prototype.sort\<close> is stable), clear the map and put the last 50 back.
\<close>

definition cleanupCache :: "int \<Rightarrow> cache \<Rightarrow> cache" where
  "cleanupCache now c =
     (let kept = filter (\<lambda>(filePath, entry). \<not> (now - entry_timestamp entry > fileCacheTtl))
                   (fileCache c);
          c1 = (case cache_timestamp c of
                  None \<Rightarrow> c
                | Some t \<Rightarrow>
                    if t \<noteq> 0 \<and> now - t > cache_ttl
                    then c\<lparr>cache_mcpTools := None, cache_customAgents := None,
                           cache_memoryFiles := None, cache_timestamp := None,
                           cache_projectPath := None\<rparr>
                    else c)
      in if length kept > 100
         then let entries = sort_key (\<lambda>(path, data). entry_timestamp data) kept
              in c1\<lparr>fileCache :=
                     foldl (\<lambda>m (path, data). AList.update path data m) [] (slice_last 50 entries)\<rparr>
         else c1\<lparr>fileCache := kept\<rparr>)"

section \<open>The command wrapper's cache\<close>







section \<open>The analysis result and the recommendation engine\<close>

record recommendation =
  impact :: string
  title :: string
  description :: string
  savings :: string

text \<open>
  \<^verbatim>\<open>this.results\<close> (lines 117-127). \<open>total'\<close> is the field \<^verbatim>\<open>total\<close>; the three
  fields after it are \<^verbatim>\<open>breakdown.mcpServers\<close>, \<^verbatim>\<open>breakdown.mcpToolsDetailed\<close> and
  \<^verbatim>\<open>breakdown.agents\<close>, \<open>None\<close> while \<^verbatim>\<open>undefined\<close>.
\<close>

record results =
  systemPrompt :: jsnum
  systemTools :: jsnum
  mcpTools :: jsnum
  customAgents :: jsnum
  memoryFiles :: jsnum
  total' :: jsnum
  mcpServers :: "int option object option"
  mcpToolsDetailed :: "tool list option object option"
  agents :: "int object option"
  optimization :: "recommendation list"
  projectPath :: "string option"

definition new_results :: "string option \<Rightarrow> results" where
  "new_results p =
     \<lparr>systemPrompt = Num 0, systemTools = Num 0, mcpTools = Num 0, customAgents = Num 0,
      memoryFiles = Num 0, total' = Num 0, mcpServers = None, mcpToolsDetailed = None,
      agents = None, optimization = [], projectPath = p\<rparr>"

definition consolidate_servers :: recommendation where
  "consolidate_servers =
     \<lparr>impact = ''high'', title = ''Consolidate MCP Servers'',
      description = ''Consider disabling unused MCP servers or merging similar functionality'',
      savings = ''20-40k tokens''\<rparr>"

definition optimize_agents :: recommendation where
  "optimize_agents =
     \<lparr>impact = ''high'', title = ''Optimize Agent Architecture'',
      description = ''Combine overlapping agent responsibilities to reduce redundancy'',
      savings = ''3-6k tokens''\<rparr>"

definition selective_loading :: recommendation where
  "selective_loading =
     \<lparr>impact = ''medium'', title = ''Selective MCP Loading'',
      description = ''Implement on-demand loading for MCP servers'',
      savings = ''5-15k tokens''\<rparr>"

text \<open>\<^verbatim>\<open>Object.keys(this.results.breakdown.mcpServers || {}).length\<close> (line 626).\<close>

definition serverCount :: "results \<Rightarrow> nat" where
  "serverCount r = length (Object_keys (case mcpServers r of None \<Rightarrow> [] | Some b \<Rightarrow> b))"

text \<open>\<^verbatim>\<open>generateOptimizationRecommendations\<close> (lines 602-636); \<^verbatim>\<open>push\<close> appends.\<close>

definition generateOptimizationRecommendations :: "results \<Rightarrow> results" where
  "generateOptimizationRecommendations r =
     (let recommendations = [];
          recommendations = (if js_gt (mcpTools r) 100000
                             then recommendations @ [consolidate_servers] else recommendations);
          recommendations = (if js_gt (customAgents r) 10000
                             then recommendations @ [optimize_agents] else recommendations);
          recommendations = (if serverCount r > 15
                             then recommendations @ [selective_loading] else recommendations)
      in r\<lparr>optimization := recommendations\<rparr>)"

section \<open>The static server tables\<close>

record server_data =
  sd_total :: int
  sd_tools :: "tool list"

type_synonym mcp_table = "(string \<times> server_data) list"

text \<open>\<^verbatim>\<open>mcpToolsData\<close> of \<^verbatim>\<open>analyzeMcpTools\<close> (lines 180-428).\<close>

definition mcpToolsData :: "mcp_table" where
  "mcpToolsData =
   [ (''fetch'', \<lparr>sd_total = 643, sd_tools =
       [(''mcp__fetch__fetch'', 643)]\<rparr>),
    (''sequential-thinking'', \<lparr>sd_total = 1300, sd_tools =
       [(''mcp__sequential-thinking__sequentialthinking'', 1300)]\<rparr>),
    (''byterover-mcp'', \<lparr>sd_total = 968, sd_tools =
       [(''mcp__byterover-mcp__byterover-retrieve-knowledge'', 456),
        (''mcp__byterover-mcp__byterover-store-knowledge'', 512)]\<rparr>),
    (''puppeteer'', \<lparr>sd_total = 1815, sd_tools =
       [(''mcp__puppeteer__puppeteer_navigate'', 432),
        (''mcp__puppeteer__puppeteer_screenshot'', 398),
        (''mcp__puppeteer__puppeteer_click'', 287),
        (''mcp__puppeteer__puppeteer_fill'', 298),
        (''mcp__puppeteer__puppeteer_select'', 210),
        (''mcp__puppeteer__puppeteer_hover'', 190)]\<rparr>),
    (''mcp-playwright'', \<lparr>sd_total = 15234, sd_tools =
       [(''mcp__mcp-playwright__start_codegen_session'', 567),
        (''mcp__mcp-playwright__playwright_navigate'', 456),
        (''mcp__mcp-playwright__playwright_screenshot'', 623),
        (''mcp__mcp-playwright__playwright_click'', 298),
        (''mcp__mcp-playwright__playwright_fill'', 289),
        (''mcp__mcp-playwright__playwright_evaluate'', 334),
        (''mcp__mcp-playwright__playwright_console_logs'', 445),
        (''mcp__mcp-playwright__playwright_get_visible_text'', 234),
        (''mcp__mcp-playwright__playwright_get_visible_html'', 523),
        (''mcp__mcp-playwright__playwright_upload_file'', 387),
        (''mcp__mcp-playwright__playwright_drag'', 298),
        (''mcp__mcp-playwright__playwright_press_key'', 267),
        (''mcp__mcp-playwright__playwright_save_as_pdf'', 445),
        (''mcp__mcp-playwright__playwright_get'', 198),
        (''mcp__mcp-playwright__playwright_post'', 234),
        (''mcp__mcp-playwright__playwright_put'', 187),
        (''mcp__mcp-playwright__playwright_delete'', 156),
        (''mcp__mcp-playwright__playwright_expect_response'', 387),
        (''mcp__mcp-playwright__playwright_assert_response'', 334),
        (''mcp__mcp-playwright__playwright_close'', 123)]\<rparr>),
    (''everything'', \<lparr>sd_total = 2167, sd_tools =
       [(''mcp__everything__echo'', 198),
        (''mcp__everything__add'', 156),
        (''mcp__everything__longRunningOperation'', 387),
        (''mcp__everything__printEnv'', 167),
        (''mcp__everything__sampleLLM'', 298),
        (''mcp__everything__getTinyImage'', 134),
        (''mcp__everything__annotatedMessage'', 445),
        (''mcp__everything__getResourceReference'', 382)]\<rparr>),
    (''github-official'', \<lparr>sd_total = 12456, sd_tools =
       [(''mcp__github-official__create_or_update_file'', 567),
        (''mcp__github-official__search_repositories'', 434),
        (''mcp__github-official__create_repository'', 398),
        (''mcp__github-official__get_file_contents'', 445),
        (''mcp__github-official__push_files'', 512),
        (''mcp__github-official__create_issue'', 389),
        (''mcp__github-official__create_pull_request'', 623),
        (''mcp__github-official__fork_repository'', 334),
        (''mcp__github-official__create_branch'', 387),
        (''mcp__github-official__list_commits'', 298),
        (''mcp__github-official__list_issues'', 456),
        (''mcp__github-official__update_issue'', 423),
        (''mcp__github-official__add_issue_comment'', 287),
        (''mcp__github-official__search_code'', 345),
        (''mcp__github-official__search_issues'', 367),
        (''mcp__github-official__search_users'', 298),
        (''mcp__github-official__get_issue'', 234),
        (''mcp__github-official__get_pull_request'', 267),
        (''mcp__github-official__list_pull_requests'', 489),
        (''mcp__github-official__create_pull_request_review'', 678),
        (''mcp__github-official__merge_pull_request'', 456),
        (''mcp__github-official__get_pull_request_files'', 334),
        (''mcp__github-official__get_pull_request_status'', 298),
        (''mcp__github-official__update_pull_request_branch'', 387),
        (''mcp__github-official__get_pull_request_comments'', 345),
        (''mcp__github-official__get_pull_request_reviews'', 323)]\<rparr>),
    (''mcp-filesystem'', \<lparr>sd_total = 4234, sd_tools =
       [(''mcp__mcp-filesystem__read_file'', 456),
        (''mcp__mcp-filesystem__read_multiple_files'', 523),
        (''mcp__mcp-filesystem__write_file'', 398),
        (''mcp__mcp-filesystem__edit_file'', 623),
        (''mcp__mcp-filesystem__create_directory'', 367),
        (''mcp__mcp-filesystem__list_directory'', 423),
        (''mcp__mcp-filesystem__list_directory_with_sizes'', 489),
        (''mcp__mcp-filesystem__directory_tree'', 445),
        (''mcp__mcp-filesystem__move_file'', 298),
        (''mcp__mcp-filesystem__search_files'', 387),
        (''mcp__mcp-filesystem__get_file_info'', 334),
        (''mcp__mcp-filesystem__list_allowed_directories'', 191)]\<rparr>),
    (''context7-mcp'', \<lparr>sd_total = 1023, sd_tools =
       [(''mcp__context7-mcp__resolve-library-id'', 567),
        (''mcp__context7-mcp__get-library-docs'', 456)]\<rparr>),
    (''brave-search'', \<lparr>sd_total = 823, sd_tools =
       [(''mcp__brave-search__brave_web_search'', 434),
        (''mcp__brave-search__brave_local_search'', 389)]\<rparr>),
    (''deep-code-reasoning'', \<lparr>sd_total = 4267, sd_tools =
       [(''mcp__deep-code-reasoning__escalate_analysis'', 678),
        (''mcp__deep-code-reasoning__trace_execution_path'', 534),
        (''mcp__deep-code-reasoning__hypothesis_test'', 456),
        (''mcp__deep-code-reasoning__cross_system_impact'', 523),
        (''mcp__deep-code-reasoning__performance_bottleneck'', 445),
        (''mcp__deep-code-reasoning__start_conversation'', 389),
        (''mcp__deep-code-reasoning__continue_conversation'', 334),
        (''mcp__deep-code-reasoning__finalize_conversation'', 267),
        (''mcp__deep-code-reasoning__get_conversation_status'', 234),
        (''mcp__deep-code-reasoning__run_hypothesis_tournament'', 407)]\<rparr>),
    (''supabase'', \<lparr>sd_total = 14567, sd_tools =
       [(''mcp__supabase__list_organizations'', 298),
        (''mcp__supabase__get_organization'', 267),
        (''mcp__supabase__list_projects'', 234),
        (''mcp__supabase__get_project'', 198),
        (''mcp__supabase__get_cost'', 345),
        (''mcp__supabase__confirm_cost'', 367),
        (''mcp__supabase__create_project'', 567),
        (''mcp__supabase__pause_project'', 189),
        (''mcp__supabase__restore_project'', 198),
        (''mcp__supabase__create_branch'', 434),
        (''mcp__supabase__list_branches'', 334),
        (''mcp__supabase__delete_branch'', 187),
        (''mcp__supabase__merge_branch'', 198),
        (''mcp__supabase__reset_branch'', 267),
        (''mcp__supabase__rebase_branch'', 234),
        (''mcp__supabase__list_tables'', 389),
        (''mcp__supabase__list_extensions'', 267),
        (''mcp__supabase__list_migrations'', 298),
        (''mcp__supabase__apply_migration'', 456),
        (''mcp__supabase__execute_sql'', 445),
        (''mcp__supabase__get_logs'', 387),
        (''mcp__supabase__get_advisors'', 423),
        (''mcp__supabase__get_project_url'', 178),
        (''mcp__supabase__get_anon_key'', 167),
        (''mcp__supabase__generate_typescript_types'', 298),
        (''mcp__supabase__search_docs'', 1234),
        (''mcp__supabase__list_edge_functions'', 234),
        (''mcp__supabase__deploy_edge_function'', 623)]\<rparr>),
    (''zen-mcp-server'', \<lparr>sd_total = 20456, sd_tools =
       [(''mcp__zen__chat'', 1234),
        (''mcp__zen__thinkdeep'', 1456),
        (''mcp__zen__planner'', 1123),
        (''mcp__zen__consensus'', 1089),
        (''mcp__zen__codereview'', 1345),
        (''mcp__zen__precommit'', 1234),
        (''mcp__zen__debug'', 1456),
        (''mcp__zen__secaudit'', 1289),
        (''mcp__zen__docgen'', 1123),
        (''mcp__zen__analyze'', 1234),
        (''mcp__zen__refactor'', 1089),
        (''mcp__zen__tracer'', 1345),
        (''mcp__zen__testgen'', 1234),
        (''mcp__zen__challenge'', 389),
        (''mcp__zen__listmodels'', 234),
        (''mcp__zen__version'', 156)]\<rparr>),
    (''claude-flow_Docs'', \<lparr>sd_total = 1234, sd_tools =
       [(''mcp__claude-flow_Docs__fetch_claude_flow_documentation'', 298),
        (''mcp__claude-flow_Docs__search_claude_flow_documentation'', 345),
        (''mcp__claude-flow_Docs__search_claude_flow_code'', 367),
        (''mcp__claude-flow_Docs__fetch_generic_url_content'', 224)]\<rparr>),
    (''perplexity-mcp'', \<lparr>sd_total = 345, sd_tools =
       [(''mcp__perplexity-mcp__perplexity_search_web'', 345)]\<rparr>),
    (''Prisma-Local'', \<lparr>sd_total = 1123, sd_tools =
       [(''mcp__Prisma-Local__migrate-status'', 367),
        (''mcp__Prisma-Local__migrate-dev'', 423),
        (''mcp__Prisma-Local__migrate-reset'', 333)]\<rparr>),
    (''firecrawl'', \<lparr>sd_total = 6756, sd_tools =
       [(''mcp__firecrawl__firecrawl_scrape'', 1534),
        (''mcp__firecrawl__firecrawl_map'', 738),
        (''mcp__firecrawl__firecrawl_crawl'', 1634),
        (''mcp__firecrawl__firecrawl_check_crawl_status'', 507),
        (''mcp__firecrawl__firecrawl_search'', 1298),
        (''mcp__firecrawl__firecrawl_extract'', 1045)]\<rparr>),
    (''BMAD-METHOD DOCS'', \<lparr>sd_total = 1456, sd_tools =
       [(''mcp__BMAD-METHOD_Docs__fetch_BMAD_METHOD_documentation'', 423),
        (''mcp__BMAD-METHOD_Docs__search_BMAD_METHOD_documentation'', 456),
        (''mcp__BMAD-METHOD_Docs__search_BMAD_METHOD_code'', 387),
        (''mcp__BMAD-METHOD_Docs__fetch_generic_url_content'', 190)]\<rparr>),
    (''awesome-ui-component-library Docs'', \<lparr>sd_total = 1234, sd_tools =
       [(''mcp__awesome-ui-component-library_Docs__fetch_awesome_docs'', 334),
        (''mcp__awesome-ui-component-library_Docs__search_repo_docs'', 387),
        (''mcp__awesome-ui-component-library_Docs__search_repo_code'', 298),
        (''mcp__awesome-ui-component-library_Docs__fetch_generic_url_content'', 215)]\<rparr>)]"

text \<open>\<^verbatim>\<open>mcpServers\<close> of the simplified analyzer (lines 934-1068).\<close>

definition mcpServers_simple :: "mcp_table" where
  "mcpServers_simple =
   [ (''fetch'', \<lparr>sd_total = 643, sd_tools =
       [(''mcp__fetch__fetch'', 643)]\<rparr>),
    (''sequential-thinking'', \<lparr>sd_total = 1300, sd_tools =
       [(''mcp__sequential-thinking__sequentialthinking'', 1300)]\<rparr>),
    (''puppeteer'', \<lparr>sd_total = 3415, sd_tools =
       [(''mcp__puppeteer__puppeteer_navigate'', 490),
        (''mcp__puppeteer__puppeteer_screenshot'', 506),
        (''mcp__puppeteer__puppeteer_click'', 395),
        (''mcp__puppeteer__puppeteer_fill'', 414),
        (''mcp__puppeteer__puppeteer_select'', 419),
        (''mcp__puppeteer__puppeteer_hover'', 396),
        (''mcp__puppeteer__puppeteer_evaluate'', 393)]\<rparr>),
    (''mcp-playwright'', \<lparr>sd_total = 12456, sd_tools =
       [(''mcp__mcp-playwright__start_codegen_session'', 498),
        (''mcp__mcp-playwright__playwright_navigate'', 557),
        (''mcp__mcp-playwright__playwright_screenshot'', 573),
        (''mcp__mcp-playwright__playwright_click'', 395),
        (''mcp__mcp-playwright__playwright_fill'', 413),
        (''mcp__mcp-playwright__playwright_evaluate'', 392),
        (''mcp__mcp-playwright__playwright_console_logs'', 509),
        (''mcp__mcp-playwright__playwright_get_visible_text'', 380),
        (''mcp__mcp-playwright__playwright_get_visible_html'', 613),
        (''mcp__mcp-playwright__playwright_close'', 374),
        (''mcp__mcp-playwright__playwright_get'', 393),
        (''mcp__mcp-playwright__playwright_post'', 470),
        (''mcp__mcp-playwright__playwright_put'', 417),
        (''mcp__mcp-playwright__playwright_delete'', 393),
        (''mcp__mcp-playwright__playwright_expect_response'', 457),
        (''mcp__mcp-playwright__playwright_assert_response'', 455),
        (''mcp__mcp-playwright__playwright_custom_user_agent'', 405),
        (''mcp__mcp-playwright__playwright_go_back'', 374),
        (''mcp__mcp-playwright__playwright_go_forward'', 374),
        (''mcp__mcp-playwright__playwright_drag'', 425),
        (''mcp__mcp-playwright__playwright_press_key'', 433),
        (''mcp__mcp-playwright__playwright_save_as_pdf'', 541),
        (''mcp__mcp-playwright__playwright_click_and_switch_tab'', 405)]\<rparr>),
    (''everything'', \<lparr>sd_total = 2167, sd_tools =
       [(''mcp__everything__echo'', 198),
        (''mcp__everything__add'', 156),
        (''mcp__everything__longRunningOperation'', 387),
        (''mcp__everything__printEnv'', 167),
        (''mcp__everything__sampleLLM'', 298),
        (''mcp__everything__getTinyImage'', 134),
        (''mcp__everything__annotatedMessage'', 445),
        (''mcp__everything__getResourceReference'', 382)]\<rparr>),
    (''github-official'', \<lparr>sd_total = 12456, sd_tools =
       [(''mcp__github-official__create_or_update_file'', 570),
        (''mcp__github-official__search_repositories'', 474),
        (''mcp__github-official__create_repository'', 477),
        (''mcp__github-official__get_file_contents'', 492),
        (''mcp__github-official__push_files'', 574),
        (''mcp__github-official__create_issue'', 498),
        (''mcp__github-official__create_pull_request'', 596),
        (''mcp__github-official__fork_repository'', 471),
        (''mcp__github-official__create_branch'', 497),
        (''mcp__github-official__list_commits'', 458),
        (''mcp__github-official__list_issues'', 541),
        (''mcp__github-official__update_issue'', 531),
        (''mcp__github-official__add_issue_comment'', 455),
        (''mcp__github-official__search_code'', 469),
        (''mcp__github-official__search_issues'', 533),
        (''mcp__github-official__search_users'', 490),
        (''mcp__github-official__get_issue'', 443),
        (''mcp__github-official__get_pull_request'', 468),
        (''mcp__github-official__list_pull_requests'', 632),
        (''mcp__github-official__create_pull_request_review'', 804),
        (''mcp__github-official__merge_pull_request'', 550),
        (''mcp__github-official__get_pull_request_files'', 473),
        (''mcp__github-official__get_pull_request_status'', 475),
        (''mcp__github-official__update_pull_request_branch'', 505),
        (''mcp__github-official__get_pull_request_comments'', 471),
        (''mcp__github-official__get_pull_request_reviews'', 470)]\<rparr>),
    (''mcp-filesystem'', \<lparr>sd_total = 4234, sd_tools =
       [(''mcp__mcp-filesystem__read_file'', 456),
        (''mcp__mcp-filesystem__read_multiple_files'', 523),
        (''mcp__mcp-filesystem__write_file'', 398),
        (''mcp__mcp-filesystem__edit_file'', 623),
        (''mcp__mcp-filesystem__create_directory'', 367),
        (''mcp__mcp-filesystem__list_directory'', 423),
        (''mcp__mcp-filesystem__directory_tree'', 445),
        (''mcp__mcp-filesystem__move_file'', 298),
        (''mcp__mcp-filesystem__search_files'', 387),
        (''mcp__mcp-filesystem__get_file_info'', 334)]\<rparr>),
    (''context7-mcp'', \<lparr>sd_total = 1023, sd_tools =
       [(''mcp__context7-mcp__resolve-library-id'', 567),
        (''mcp__context7-mcp__get-library-docs'', 456)]\<rparr>),
    (''brave-search'', \<lparr>sd_total = 823, sd_tools =
       [(''mcp__brave-search__brave_web_search'', 434),
        (''mcp__brave-search__brave_local_search'', 389)]\<rparr>),
    (''deep-code-reasoning'', \<lparr>sd_total = 4267, sd_tools =
       [(''mcp__deep-code-reasoning__escalate_analysis'', 678),
        (''mcp__deep-code-reasoning__trace_execution_path'', 534),
        (''mcp__deep-code-reasoning__hypothesis_test'', 456),
        (''mcp__deep-code-reasoning__cross_system_impact'', 523),
        (''mcp__deep-code-reasoning__performance_bottleneck'', 445),
        (''mcp__deep-code-reasoning__start_conversation'', 389),
        (''mcp__deep-code-reasoning__continue_conversation'', 334),
        (''mcp__deep-code-reasoning__finalize_conversation'', 267)]\<rparr>),
    (''supabase'', \<lparr>sd_total = 14567, sd_tools =
       [(''mcp__supabase__list_organizations'', 298),
        (''mcp__supabase__get_organization'', 267),
        (''mcp__supabase__list_projects'', 234),
        (''mcp__supabase__create_project'', 567),
        (''mcp__supabase__execute_sql'', 445),
        (''mcp__supabase__search_docs'', 1234),
        (''mcp__supabase__deploy_edge_function'', 623)]\<rparr>),
    (''perplexity-mcp'', \<lparr>sd_total = 345, sd_tools =
       [(''mcp__perplexity-mcp__perplexity_search_web'', 345)]\<rparr>),
    (''firecrawl'', \<lparr>sd_total = 6756, sd_tools =
       [(''mcp__firecrawl__firecrawl_scrape'', 1534),
        (''mcp__firecrawl__firecrawl_crawl'', 1634),
        (''mcp__firecrawl__firecrawl_search'', 1298)]\<rparr>),
    (''awesome-ui-component-library Docs'', \<lparr>sd_total = 1234, sd_tools =
       [(''mcp__awesome-ui-component-library_Docs__fetch_awesome_docs'', 334),
        (''mcp__awesome-ui-component-library_Docs__search_repo_docs'', 387),
        (''mcp__awesome-ui-component-library_Docs__search_repo_code'', 298),
        (''mcp__awesome-ui-component-library_Docs__fetch_generic_url_content'', 215)]\<rparr>),
    (''BMAD-METHOD DOCS'', \<lparr>sd_total = 1456, sd_tools =
       [(''mcp__BMAD-METHOD_Docs__fetch_BMAD_METHOD_documentation'', 423),
        (''mcp__BMAD-METHOD_Docs__search_BMAD_METHOD_documentation'', 456),
        (''mcp__BMAD-METHOD_Docs__search_BMAD_METHOD_code'', 387),
        (''mcp__BMAD-METHOD_Docs__fetch_generic_url_content'', 190)]\<rparr>)]"

section \<open>The environment of one analysis\<close>

text \<open>
  What \<^verbatim>\<open>JSON.parse(await fs.readFile(settingsPath))\<close> returns, as far as the analyzers
  tell values apart: the value \<^verbatim>\<open>null\<close> (reading a property of it throws); a value
  whose \<^verbatim>\<open>enabledMcpjsonServers\<close> is absent or falsy (\<^verbatim>\<open>|| []\<close> applies); a non-empty
  string; another value that is not iterable; an array, given by the property keys its
  elements convert to.
\<close>

datatype settings =
    SettingsNull
  | ServersAbsent
  | ServersString string
  | ServersNotIterable
  | ServersArray "string list"

text \<open>
  The \<^verbatim>\<open>agents\<close> directory: \<^verbatim>\<open>fs.access\<close> fails; \<^verbatim>\<open>fs.access\<close> succeeds and
  \<^verbatim>\<open>fs.readdir\<close> fails; or the names \<^verbatim>\<open>fs.readdir\<close> lists.
\<close>

datatype agents_dir = DirMissing | DirUnreadable | DirListing "string list"

text \<open>
  Everything one call reads from outside: the clock, the \<^verbatim>\<open>path\<close> module, the file
  system (\<open>None\<close> is a read that throws, is rejected or runs into its own timeout),
  and for the server analyzer and the agents analyzer whether their reads finish
  before the 3 second timer of \<^verbatim>\<open>analyze\<close> fires. The read of the memory file races
  a timer of its own and needs no such flag.
\<close>

record env =
  clock :: int
  located :: "string option"
  path_dirname :: "string \<Rightarrow> string"
  path_join :: "string \<Rightarrow> string \<Rightarrow> string"
  localSettings :: "settings option"
  globalSettings :: "settings option"
  agentsDir :: agents_dir
  agentFile :: "string \<Rightarrow> string option"
  claudeMd :: "string option"
  mcpTime :: int
  agentTime :: "string \<Rightarrow> int"
  memoryTime :: int
  mcpInTime :: bool
  agentsInTime :: bool

section \<open>The category analyzers\<close>

definition analyzeSystemPrompt :: "results \<Rightarrow> results" where
  "analyzeSystemPrompt r = r\<lparr>systemPrompt := Num 8500\<rparr>"

definition analyzeSystemTools :: "results \<Rightarrow> results" where
  "analyzeSystemTools r = r\<lparr>systemTools := Num 15200\<rparr>"

text \<open>
  \<^verbatim>\<open>mcpToolsData[server]\<close>: an own property of the table, else a property inherited from
  \<^verbatim>\<open>Object.prototype\<close>, else \<^verbatim>\<open>undefined\<close>.
\<close>

datatype lookup = Undefined | Inherited | Own server_data

definition get_property :: "mcp_table \<Rightarrow> string \<Rightarrow> lookup" where
  "get_property table k =
     (case map_of table k of
        Some serverData \<Rightarrow> Own serverData
      | None \<Rightarrow> if k \<in> set Object_prototype_names then Inherited else Undefined)"

text \<open>
  The names \<^verbatim>\<open>for (const server of enabledServers)\<close> visits (line 434), \<open>None\<close> when
  line 177 or the loop header throws a \<^verbatim>\<open>TypeError\<close>. A string is iterated by character.
\<close>

fun enabledServers_for_of :: "settings \<Rightarrow> string list option" where
  "enabledServers_for_of SettingsNull = None"
| "enabledServers_for_of ServersAbsent = Some []"
| "enabledServers_for_of (ServersString s) = Some (map (\<lambda>ch. [ch]) s)"
| "enabledServers_for_of ServersNotIterable = None"
| "enabledServers_for_of (ServersArray names) = Some names"

text \<open>
  Lines 166-177: the project's settings, else the settings under \<^verbatim>\<open>$HOME\<close>; \<open>None\<close>
  when both reads fail or a \<^verbatim>\<open>TypeError\<close> is thrown, which the outer \<^verbatim>\<open>catch\<close> takes.
\<close>

definition enabledServers :: "env \<Rightarrow> string list option" where
  "enabledServers e =
     (case (case localSettings e of
              Some settings \<Rightarrow> Some settings
            | None \<Rightarrow> globalSettings e) of
        Some settings \<Rightarrow> enabledServers_for_of settings
      | None \<Rightarrow> None)"

text \<open>The body of the loop (lines 435-446) on \<open>(mcpTotal, breakdown, detailed)\<close>.\<close>

definition mcp_server_step ::
  "jsnum \<times> int option object \<times> tool list option object \<Rightarrow> string \<Rightarrow>
   jsnum \<times> int option object \<times> tool list option object" where
  "mcp_server_step = (\<lambda>(mcpTotal, breakdown, detailed) server.
     case get_property mcpToolsData server of
       Own serverData \<Rightarrow>
         (js_add mcpTotal (to_number (Some (sd_total serverData))),
          set_property server (Some (sd_total serverData)) breakdown,
          set_property server (Some (sd_tools serverData)) detailed)
     | Inherited \<Rightarrow>
         (js_add mcpTotal (to_number None),
          set_property server None breakdown,
          set_property server None detailed)
     | Undefined \<Rightarrow>
         (js_add mcpTotal (Num 2000),
          set_property server (Some 2000) breakdown,
          set_property server (Some [(''mcp__'' @ server @ ''__unknown'', 2000)]) detailed))"

text \<open>
  \<^verbatim>\<open>analyzeMcpTools\<close> (lines 155-466). \<open>c0\<close> is the cache when the analyzer is called:
  the three analyzers test the snapshot one after the other before any of them
  resumes after a read. The result says whether the analyzer has settled when the
  timer of \<^verbatim>\<open>analyze\<close> fires, and holds the state as far as the analyzer has written it.
\<close>

definition analyzeMcpTools ::
  "env \<Rightarrow> string \<Rightarrow> cache \<Rightarrow> results \<times> cache \<Rightarrow> bool \<times> results \<times> cache" where
  "analyzeMcpTools e projectRoot c0 = (\<lambda>(r, c).
     case (if isCacheValid (clock e) c0 projectRoot then cache_mcpTools c0 else None) of
       Some cached \<Rightarrow>
         (True,
          r\<lparr>mcpTools := snap_total cached, mcpServers := Some (snap_breakdown cached),
            mcpToolsDetailed := Some (snap_detailed cached)\<rparr>, c)
     | None \<Rightarrow>
         if \<not> mcpInTime e then (False, r, c)
         else
           (case enabledServers e of
              Some servers \<Rightarrow>
                (case foldl mcp_server_step (Num 0, [], []) servers of
                   (mcpTotal, breakdown, detailed) \<Rightarrow>
                     (True,
                      r\<lparr>mcpTools := mcpTotal, mcpServers := Some breakdown,
                        mcpToolsDetailed := Some detailed\<rparr>,
                      c\<lparr>cache_mcpTools :=
                          Some \<lparr>snap_total = mcpTotal, snap_breakdown = breakdown,
                                snap_detailed = detailed\<rparr>,
                        cache_timestamp := Some (mcpTime e),
                        cache_projectPath := Some projectRoot\<rparr>))
            | None \<Rightarrow> (True, r\<lparr>mcpTools := Num 120000\<rparr>, c)))"

text \<open>
  One agent file (lines 499-536) on \<open>(totalTokens, agentBreakdown, cache)\<close>. The batches
  of five only pace the reads; the files are taken here in the order of the listing.
\<close>

definition agent_file_step ::
  "env \<Rightarrow> string \<Rightarrow> int \<times> int object \<times> cache \<Rightarrow> string \<Rightarrow> int \<times> int object \<times> cache" where
  "agent_file_step e agentsDirPath = (\<lambda>(totalTokens, agentBreakdown, c) file.
     if endsWith file ''.md''
     then let filePath = path_join e agentsDirPath file
          in if isFileCacheValid (agentTime e file) c filePath
             then (case map_of (fileCache c) filePath of
                     Some cachedData \<Rightarrow>
                       (totalTokens + entry_tokens cachedData,
                        set_property file (entry_tokens cachedData) agentBreakdown, c)
                   | None \<Rightarrow>
                       (totalTokens + 1000, set_property file 1000 agentBreakdown, c))
             else (case agentFile e file of
                     Some content \<Rightarrow>
                       let tokens = estimateTokens content
                       in (totalTokens + tokens, set_property file tokens agentBreakdown,
                           c\<lparr>fileCache :=
                               AList.update filePath
                                 \<lparr>entry_tokens = tokens, entry_timestamp = agentTime e file\<rparr>
                                 (fileCache c)\<rparr>)
                   | None \<Rightarrow>
                       (totalTokens + 1000, set_property file 1000 agentBreakdown, c))
     else (totalTokens, agentBreakdown, c))"

text \<open>\<^verbatim>\<open>analyzeCustomAgents\<close> (lines 468-558).\<close>

definition analyzeCustomAgents ::
  "env \<Rightarrow> string \<Rightarrow> string \<Rightarrow> cache \<Rightarrow> results \<times> cache \<Rightarrow> bool \<times> results \<times> cache" where
  "analyzeCustomAgents e claudeDir projectRoot c0 = (\<lambda>(r, c).
     case (if isCacheValid (clock e) c0 projectRoot then cache_customAgents c0 else None) of
       Some cached \<Rightarrow>
         (True,
          r\<lparr>customAgents := Num (asnap_total cached),
            agents := Some (asnap_breakdown cached)\<rparr>, c)
     | None \<Rightarrow>
         if \<not> agentsInTime e then (False, r, c)
         else
           (case agentsDir e of
              DirMissing \<Rightarrow> (True, r\<lparr>customAgents := Num 0, agents := Some []\<rparr>, c)
            | DirUnreadable \<Rightarrow> (True, r\<lparr>customAgents := Num 8900\<rparr>, c)
            | DirListing agentFiles \<Rightarrow>
                (case foldl (agent_file_step e (path_join e claudeDir ''agents''))
                        (0, [], c) agentFiles of
                   (totalTokens, agentBreakdown, c') \<Rightarrow>
                     (True,
                      r\<lparr>customAgents := Num totalTokens, agents := Some agentBreakdown\<rparr>,
                      c'\<lparr>cache_customAgents :=
                           Some \<lparr>asnap_total = totalTokens,
                                 asnap_breakdown = agentBreakdown\<rparr>\<rparr>))))"

text \<open>
  \<^verbatim>\<open>analyzeMemoryFiles\<close> (lines 560-600). A cached count of \<open>0\<close> is falsy. The read
  races a timer of 3000 ms (lines 579-584) that is set before the timer of \<^verbatim>\<open>analyze\<close>
  (lines 663-665) and fires before it: a read that is still running then is rejected
  and takes the fallback like any failed read, so this analyzer has always settled
  when the timer of \<^verbatim>\<open>analyze\<close> fires.
\<close>

definition analyzeMemoryFiles ::
  "env \<Rightarrow> string \<Rightarrow> string \<Rightarrow> cache \<Rightarrow> results \<times> cache \<Rightarrow> bool \<times> results \<times> cache" where
  "analyzeMemoryFiles e claudeDir projectRoot c0 = (\<lambda>(r, c).
     case (if isCacheValid (clock e) c0 projectRoot
           then (case cache_memoryFiles c0 of
                   Some n \<Rightarrow> if n = 0 then None else Some n
                 | None \<Rightarrow> None)
           else None) of
       Some n \<Rightarrow> (True, r\<lparr>memoryFiles := Num n\<rparr>, c)
     | None \<Rightarrow>
         let claudeMdPath = path_join e claudeDir ''CLAUDE.md''
         in if isFileCacheValid (clock e) c0 claudeMdPath
            then (case map_of (fileCache c0) claudeMdPath of
                    Some cachedData \<Rightarrow>
                      (True, r\<lparr>memoryFiles := Num (entry_tokens cachedData)\<rparr>,
                       c\<lparr>cache_memoryFiles := Some (entry_tokens cachedData)\<rparr>)
                  | None \<Rightarrow> (True, r\<lparr>memoryFiles := Num 2700\<rparr>, c))
            else (case claudeMd e of
                    Some content \<Rightarrow>
                      let tokens = estimateTokens content
                      in (True, r\<lparr>memoryFiles := Num tokens\<rparr>,
                          c\<lparr>cache_memoryFiles := Some tokens,
                            fileCache :=
                              AList.update claudeMdPath
                                \<lparr>entry_tokens = tokens, entry_timestamp = memoryTime e\<rparr>
                                (fileCache c)\<rparr>)
                  | None \<Rightarrow> (True, r\<lparr>memoryFiles := Num 2700\<rparr>, c)))"

section \<open>The aggregator\<close>

datatype error = NoClaudeDirectory | ProcessExit | TypeError

text \<open>
  \<^verbatim>\<open>new ContextAnalyzer(claudeDir)\<close> followed by \<^verbatim>\<open>initialize\<close> (lines 114-143), with
  \<open>claudeDir\<close> already resolved: the directory to analyze, \<open>None\<close> when none is given
  (or the empty string) and none is found, which makes \<^verbatim>\<open>initialize\<close> throw.
\<close>

definition initialize :: "env \<Rightarrow> string option \<Rightarrow> string option" where
  "initialize e claudeDirArg =
     (case claudeDirArg of
        Some d \<Rightarrow> if d = [] then located e else Some d
      | None \<Rightarrow> located e)"

text \<open>
  \<^verbatim>\<open>analyze\<close> (lines 638-709) of a new analyzer on the cache \<open>c\<close>. The cache is cleaned
  first. When the timer wins the race (an analyzer has not settled) the \<^verbatim>\<open>catch\<close>
  skips the recommendations and substitutes nothing. The total is the sum of the five
  fields as they stand.
\<close>

definition analyze :: "env \<Rightarrow> string option \<Rightarrow> cache \<Rightarrow> (error + results) \<times> cache" where
  "analyze e claudeDirArg c =
     (let c1 = cleanupCache (clock e) c
      in case initialize e claudeDirArg of
           None \<Rightarrow> (Inl NoClaudeDirectory, c1)
         | Some claudeDir \<Rightarrow>
             (let projectRoot = path_dirname e claudeDir;
                  r0 = analyzeSystemTools (analyzeSystemPrompt (new_results (Some projectRoot)))
              in case analyzeMcpTools e projectRoot c1 (r0, c1) of
                   (settled1, r1, c2) \<Rightarrow>
                 case analyzeCustomAgents e claudeDir projectRoot c1 (r1, c2) of
                   (settled2, r2, c3) \<Rightarrow>
                 case analyzeMemoryFiles e claudeDir projectRoot c1 (r2, c3) of
                   (settled3, r3, c4) \<Rightarrow>
                 (let r4 = (if settled1 \<and> settled2 \<and> settled3
                            then generateOptimizationRecommendations r3 else r3)
                  in (Inr (r4\<lparr>total' :=
                              js_add (js_add (js_add (js_add (systemPrompt r4) (systemTools r4))
                                (mcpTools r4)) (customAgents r4)) (memoryFiles r4)\<rparr>),
                      c4))))"

section \<open>The simplified analyzer\<close>

text \<open>
  \<^verbatim>\<open>enabledServers.forEach\<close> (line 1073): only an array has \<^verbatim>\<open>forEach\<close>.
\<close>

fun enabledServers_forEach :: "settings \<Rightarrow> string list option" where
  "enabledServers_forEach SettingsNull = None"
| "enabledServers_forEach ServersAbsent = Some []"
| "enabledServers_forEach (ServersString s) = None"
| "enabledServers_forEach ServersNotIterable = None"
| "enabledServers_forEach (ServersArray names) = Some names"

definition simple_server_step ::
  "jsnum \<times> tool list option object \<Rightarrow> string \<Rightarrow> jsnum \<times> tool list option object" where
  "simple_server_step = (\<lambda>(total, detailed) server.
     case get_property mcpServers_simple server of
       Own serverData \<Rightarrow>
         (js_add total (to_number (Some (sd_total serverData))),
          set_property server (Some (sd_tools serverData)) detailed)
     | Inherited \<Rightarrow>
         (js_add total (to_number None), set_property server None detailed)
     | Undefined \<Rightarrow>
         (js_add total (Num 2000),
          set_property server (Some [(''mcp__'' @ server @ ''__unknown'', 2000)])
            detailed))"

text \<open>Lines 924-1096: \<open>(mcpTools, mcpToolsDetailed)\<close>.\<close>

definition simple_mcp :: "env \<Rightarrow> jsnum \<times> tool list option object" where
  "simple_mcp e =
     (case (case localSettings e of
              Some settings \<Rightarrow> enabledServers_forEach settings
            | None \<Rightarrow> None) of
        Some servers \<Rightarrow> foldl simple_server_step (Num 0, []) servers
      | None \<Rightarrow>
          (Num 120000,
           [(''fetch'', Some [(''mcp__fetch__fetch'', 643)]),
            (''github-official'',
             Some [(''mcp__github-official__create_or_update_file'', 570),
                   (''mcp__github-official__search_repositories'', 474)])]))"

text \<open>Lines 1107-1117 on \<open>(customAgents, agentBreakdown)\<close>.\<close>

definition simple_agent_step ::
  "env \<Rightarrow> int \<times> int object \<Rightarrow> string \<Rightarrow> int \<times> int object" where
  "simple_agent_step e = (\<lambda>(agentsTotal, agentBreakdown) file.
     if endsWith file ''.md''
     then (case agentFile e file of
             Some content \<Rightarrow>
               let tokens = estimateTokens_simple content
               in (agentsTotal + tokens, set_property file tokens agentBreakdown)
           | None \<Rightarrow> (agentsTotal + 100, set_property file 100 agentBreakdown))
     else (agentsTotal, agentBreakdown))"

text \<open>
  Lines 1099-1121: \<^verbatim>\<open>fs.readdir\<close> throws when the directory is missing or unreadable,
  and the \<^verbatim>\<open>catch\<close> sets the fallback; else \<^verbatim>\<open>files.slice(0, 10)\<close> is processed.
\<close>

definition simple_agents :: "env \<Rightarrow> int \<times> int object" where
  "simple_agents e =
     (case agentsDir e of
        DirListing files \<Rightarrow> foldl (simple_agent_step e) (0, []) (take 10 files)
      | DirMissing \<Rightarrow> (4500, [])
      | DirUnreadable \<Rightarrow> (4500, []))"

definition simple_memory :: "env \<Rightarrow> int" where
  "simple_memory e =
     (case claudeMd e of
        Some content \<Rightarrow> estimateTokens_simple content
      | None \<Rightarrow> 13200)"

record simple_totals =
  s_systemPrompt :: jsnum
  s_systemTools :: jsnum
  s_mcpTools :: jsnum
  s_customAgents :: jsnum
  s_memoryFiles :: jsnum
  s_total :: jsnum
  s_mcpToolsDetailed :: "tool list option object"
  s_agentBreakdown :: "int object"

text \<open>
  \<^verbatim>\<open>analyze\<close> of the simplified analyzer (lines 909-1261), up to the values it prints.
  With no directory it exits. The report then calls \<^verbatim>\<open>tools.reduce\<close> on every entry of
  \<^verbatim>\<open>mcpToolsDetailed\<close> (lines 1163-1165, 1199-1201), which throws on an entry that is
  \<^verbatim>\<open>undefined\<close>.
\<close>

definition analyze_simple :: "env \<Rightarrow> error + simple_totals" where
  "analyze_simple e =
     (case located e of
        None \<Rightarrow> Inl ProcessExit
      | Some claudeDir \<Rightarrow>
          (case simple_mcp e of (mcpTools', mcpToolsDetailed') \<Rightarrow>
           case simple_agents e of (customAgents', agentBreakdown) \<Rightarrow>
           let memoryFiles' = simple_memory e;
               total = js_add (js_add (js_add (js_add (Num 8500) (Num 15200)) mcpTools')
                         (Num customAgents')) (Num memoryFiles')
           in if list_ex (\<lambda>(serverName, tools). tools = None) mcpToolsDetailed'
              then Inl TypeError
              else Inr \<lparr>s_systemPrompt = Num 8500, s_systemTools = Num 15200,
                        s_mcpTools = mcpTools', s_customAgents = Num customAgents',
                        s_memoryFiles = Num memoryFiles', s_total = total,
                        s_mcpToolsDetailed = mcpToolsDetailed',
                        s_agentBreakdown = agentBreakdown\<rparr>))"

section \<open>The cache tests at the head of the analyzers\<close>

text \<open>
  The tests by which the three analyzers answer from the cache without reading:
  \<^verbatim>\<open>isCacheValid(this.projectRoot) && cache.mcpTools\<close> (line 157), the same with
  \<^verbatim>\<open>cache.customAgents\<close> (line 470), and for the memory file the same with
  \<^verbatim>\<open>cache.memoryFiles\<close> (line 562) or a valid file cache entry (line 571).
\<close>

definition mcp_hit :: "env \<Rightarrow> string \<Rightarrow> cache \<Rightarrow> bool" where
  "mcp_hit e projectRoot c0 = (isCacheValid (clock e) c0 projectRoot \<and> cache_mcpTools c0 \<noteq> None)"

definition agents_hit :: "env \<Rightarrow> string \<Rightarrow> cache \<Rightarrow> bool" where
  "agents_hit e projectRoot c0 = (isCacheValid (clock e) c0 projectRoot \<and> cache_customAgents c0 \<noteq> None)"

definition memory_hit :: "env \<Rightarrow> string \<Rightarrow> string \<Rightarrow> cache \<Rightarrow> bool" where
  "memory_hit e dir projectRoot c0 =
     ((isCacheValid (clock e) c0 projectRoot \<and> cache_memoryFiles c0 \<noteq> None \<and> cache_memoryFiles c0 \<noteq> Some 0)
      \<or> isFileCacheValid (clock e) c0 (path_join e dir ''CLAUDE.md''))"

section \<open>Concrete inputs\<close>

text \<open>A result with 150000 server tokens, 500 agent tokens and three servers.\<close>

definition three_servers :: results where
  "three_servers =
     (new_results None)\<lparr>mcpTools := Num 150000, customAgents := Num 500,
        mcpServers := Some [(''a'', Some 50000), (''b'', Some 50000), (''c'', Some 50000)]\<rparr>"


text \<open>A file cache of 101 entries written at the times 1000 to 1100.\<close>

definition full_file_cache :: cache where
  "full_file_cache =
     empty_cache\<lparr>fileCache :=
       map (\<lambda>i. (''/work/app/.claude/agents/'' @ replicate i CHR ''a'' @ ''.md'',
                 \<lparr>entry_tokens = 1, entry_timestamp = 1000 + int i\<rparr>)) [0..<101]\<rparr>"

text \<open>
  A project at \<^verbatim>\<open>/work/app\<close> whose settings enable \<^verbatim>\<open>fetch\<close> and
  \<^verbatim>\<open>sequential-thinking\<close>, with no \<^verbatim>\<open>agents\<close> directory and no \<^verbatim>\<open>CLAUDE.md\<close>; every
  read finishes in time. The two path functions are those of POSIX paths without a
  trailing slash.
\<close>

definition posix_join :: "string \<Rightarrow> string \<Rightarrow> string" where
  "posix_join a b = a @ ''/'' @ b"

definition posix_dirname :: "string \<Rightarrow> string" where
  "posix_dirname p = rev (drop 1 (dropWhile (\<lambda>ch. ch \<noteq> CHR ''/'') (rev p)))"

definition sample_env :: env where
  "sample_env =
     \<lparr>clock = 1000000, located = Some ''/work/app/.claude'',
      path_dirname = posix_dirname, path_join = posix_join,
      localSettings = Some (ServersArray [''fetch'', ''sequential-thinking'']),
      globalSettings = None, agentsDir = DirMissing, agentFile = (\<lambda>file. None),
      claudeMd = None, mcpTime = 1000010, agentTime = (\<lambda>file. 1000020),
      memoryTime = 1000030, mcpInTime = True, agentsInTime = True\<rparr>"

text \<open>The same project with a server named \<^verbatim>\<open>constructor\<close>, and with one named \<^verbatim>\<open>__proto__\<close>.\<close>

definition constructor_env :: env where
  "constructor_env = sample_env\<lparr>localSettings := Some (ServersArray [''constructor''])\<rparr>"

definition proto_env :: env where
  "proto_env = sample_env\<lparr>localSettings := Some (ServersArray [''__proto__''])\<rparr>"

text \<open>The same project when the settings are read only after the timer has fired.\<close>

definition delayed_env :: env where
  "delayed_env = sample_env\<lparr>mcpInTime := False\<rparr>"

text \<open>The same project without readable settings, in the project and under \<^verbatim>\<open>$HOME\<close>.\<close>

definition no_settings_env :: env where
  "no_settings_env = sample_env\<lparr>localSettings := None\<rparr>"

text \<open>
  The same project with twelve agent files of 40 characters each, and a cache that
  holds a snapshot of it taken one second before, from when it had one agent file.
\<close>

definition twelve_agents_env :: env where
  "twelve_agents_env =
     sample_env\<lparr>agentsDir := DirListing
         [''a01.md'', ''a02.md'', ''a03.md'', ''a04.md'', ''a05.md'', ''a06.md'',
          ''a07.md'', ''a08.md'', ''a09.md'', ''a10.md'', ''a11.md'', ''a12.md''],
       agentFile := (\<lambda>file. Some (replicate 40 CHR ''x''))\<rparr>"

definition warm_cache :: cache where
  "warm_cache =
     empty_cache\<lparr>cache_timestamp := Some 999000, cache_projectPath := Some ''/work/app'',
       cache_customAgents :=
         Some \<lparr>asnap_total = 500, asnap_breakdown = [(''reviewer.md'', 500)]\<rparr>\<rparr>"

text \<open>
  The spec's words for what one enabled server contributes: the table's total for a
  name in the table, 2000 for any other name.
\<close>

definition spec_server_tokens :: "mcp_table \<Rightarrow> string \<Rightarrow> int" where
  "spec_server_tokens table server =
     (case map_of table server of Some serverData \<Rightarrow> sd_total serverData | None \<Rightarrow> 2000)"

text \<open>The project of twelve agent files after the last two files were removed.\<close>

definition ten_agents_env :: env where
  "ten_agents_env =
     twelve_agents_env\<lparr>agentsDir := DirListing
         [''a01.md'', ''a02.md'', ''a03.md'', ''a04.md'', ''a05.md'', ''a06.md'',
          ''a07.md'', ''a08.md'', ''a09.md'', ''a10.md'']\<rparr>"

section \<open>Properties of the token estimator\<close>

lemma ceiling_quarter: "\<lceil>real n / 4\<rceil> = (int n + 3) div 4"
proof -
  have "real n / 4 = real_of_int (int n) / real_of_int 4"
    by simp
  then have "\<lceil>real n / 4\<rceil> = - ((- int n) div 4)"
    by (simp only: ceiling_divide_eq_div)
  also have "\<dots> = (int n + 3) div 4"
    by presburger
  finally show ?thesis .
qed

text \<open>
  Claim C9. For every string the estimator returns the ceiling of a quarter of the
  length, in both analyzers; that is the integer \<open>(length + 3) div 4\<close>, it is never
  negative, it is \<open>0\<close> on the empty string, and a string that is not longer never gets
  a larger estimate.
\<close>

theorem estimateTokens_ceiling:
  "estimateTokens s = \<lceil>real (length s) / 4\<rceil> \<and>
   estimateTokens_simple s = estimateTokens s \<and>
   estimateTokens s = (int (length s) + 3) div 4 \<and>
   0 \<le> estimateTokens s \<and>
   estimateTokens [] = 0 \<and>
   (length s1 \<le> length s2 \<longrightarrow> estimateTokens s1 \<le> estimateTokens s2)"
proof -
  have mono: "length s1 \<le> length s2 \<longrightarrow> estimateTokens s1 \<le> estimateTokens s2"
    unfolding estimateTokens_def by (auto intro!: ceiling_mono divide_right_mono)
  have nonneg: "0 \<le> estimateTokens s"
    unfolding estimateTokens_def by (simp add: ceiling_quarter)
  show ?thesis
    using mono nonneg
    by (simp add: estimateTokens_def estimateTokens_simple_def ceiling_quarter)
qed

theorem estimateTokens_ceiling_witness:
  "estimateTokens ''hello'' = 2 \<and> estimateTokens_simple ''hello'' = 2 \<and>
   length ''ab'' \<le> length ''hello'' \<and> estimateTokens ''ab'' \<le> estimateTokens ''hello'' \<and>
   estimateTokens ''ab'' = 1"
  using estimateTokens_ceiling [of "''hello''" "''ab''" "''hello''"]
        estimateTokens_ceiling [of "''ab''" "''ab''" "''hello''"]
  by simp

section \<open>The recommendation engine\<close>

text \<open>
  Claim C8. The recommendations depend only on the server tokens, the agent tokens and
  the number of servers: the high-impact server consolidation is present exactly when
  the server tokens exceed 100000, the high-impact agent recommendation exactly when the
  agent tokens exceed 10000, the medium-impact selective loading exactly when there
  are more than 15 servers, in that order and with nothing else; no other field of the
  result changes. For 150000 server tokens, 500 agent tokens and 3 servers the list is
  the server consolidation alone.
\<close>

theorem recommendations_by_thresholds:
  "generateOptimizationRecommendations r =
     r\<lparr>optimization :=
          (if js_gt (mcpTools r) 100000 then [consolidate_servers] else []) @
          (if js_gt (customAgents r) 10000 then [optimize_agents] else []) @
          (if 15 < serverCount r then [selective_loading] else [])\<rparr> \<and>
   (consolidate_servers \<in> set (optimization (generateOptimizationRecommendations r))
      \<longleftrightarrow> js_gt (mcpTools r) 100000) \<and>
   (optimize_agents \<in> set (optimization (generateOptimizationRecommendations r))
      \<longleftrightarrow> js_gt (customAgents r) 10000) \<and>
   (selective_loading \<in> set (optimization (generateOptimizationRecommendations r))
      \<longleftrightarrow> 15 < serverCount r) \<and>
   set (optimization (generateOptimizationRecommendations r))
      \<subseteq> {consolidate_servers, optimize_agents, selective_loading} \<and>
   impact consolidate_servers = ''high'' \<and> impact optimize_agents = ''high'' \<and>
   impact selective_loading = ''medium'' \<and>
   (mcpTools r = Num 150000 \<longrightarrow> customAgents r = Num 500 \<longrightarrow> serverCount r = 3 \<longrightarrow>
      optimization (generateOptimizationRecommendations r) = [consolidate_servers])"
  by (simp add: generateOptimizationRecommendations_def consolidate_servers_def
        optimize_agents_def selective_loading_def)

theorem recommendations_by_thresholds_witness:
  "mcpTools three_servers = Num 150000 \<and> customAgents three_servers = Num 500 \<and>
   serverCount three_servers = 3 \<and>
   optimization (generateOptimizationRecommendations three_servers) = [consolidate_servers] \<and>
   length (filter (\<lambda>rec. impact rec = ''high'')
     (optimization (generateOptimizationRecommendations three_servers))) = 1 \<and>
   filter (\<lambda>rec. impact rec = ''medium'')
     (optimization (generateOptimizationRecommendations three_servers)) = []"
proof -
  have a: "mcpTools three_servers = Num 150000" "customAgents three_servers = Num 500"
    by (simp_all add: three_servers_def new_results_def)
  have b: "serverCount three_servers = 3"
    by (simp add: three_servers_def new_results_def serverCount_def Object_keys_def)
  have "optimization (generateOptimizationRecommendations three_servers) = [consolidate_servers]"
    using recommendations_by_thresholds [of three_servers] a b by simp
  then show ?thesis
    using a b by (simp add: consolidate_servers_def)
qed

section \<open>The two snapshot caches\<close>




section \<open>Pruning the file cache\<close>

lemma update_fresh_key: "k \<notin> fst ` set m \<Longrightarrow> AList.update k v m = m @ [(k, v)]"
  by (induction m) auto

lemma Map_refill:
  "distinct (map fst (m @ xs)) \<Longrightarrow>
   foldl (\<lambda>m (path, data). AList.update path data m) m xs = m @ xs"
proof (induction xs arbitrary: m)
  case Nil
  then show ?case by simp
next
  case (Cons x xs)
  obtain k v where x: "x = (k, v)" by (cases x)
  from Cons.prems x have fresh: "k \<notin> fst ` set m" by auto
  from Cons.prems x have "distinct (map fst ((m @ [(k, v)]) @ xs))" by auto
  from Cons.IH [OF this] show ?case
    using x fresh by (simp add: update_fresh_key)
qed

lemma later_in_sorted:
  assumes "sorted (map f xs)" and "i < length xs"
  shows "{y \<in> set xs. f (xs ! i) < f y} \<subseteq> set (drop (Suc i) xs)"
proof
  fix y assume "y \<in> {y \<in> set xs. f (xs ! i) < f y}"
  then obtain j where j: "j < length xs" "xs ! j = y" and gt: "f (xs ! i) < f y"
    by (auto simp: in_set_conv_nth)
  have "\<not> j \<le> i"
  proof
    assume "j \<le> i"
    with assms have "map f xs ! j \<le> map f xs ! i"
      by (intro sorted_nth_mono) simp_all
    with j assms(2) gt show False by simp
  qed
  then have "Suc i \<le> j" by simp
  with j show "y \<in> set (drop (Suc i) xs)"
    by (auto simp: in_set_conv_nth intro!: exI [of _ "j - Suc i"])
qed

lemma rank_of_last:
  fixes f :: "'a \<Rightarrow> int"
  assumes srt: "sorted (map f xs)" and x: "x \<in> set (drop n xs)"
  shows "card {y \<in> set xs. f x < f y} < length xs - n"
proof -
  from x obtain k where k: "k < length xs - n" "x = xs ! (n + k)"
    by (auto simp: in_set_conv_nth)
  let ?i = "n + k"
  have i: "?i < length xs" using k by simp
  have "card {y \<in> set xs. f (xs ! ?i) < f y} \<le> card (set (drop (Suc ?i) xs))"
    by (intro card_mono later_in_sorted [OF srt i]) simp
  also have "\<dots> \<le> length (drop (Suc ?i) xs)" by (rule card_length)
  also have "\<dots> < length xs - n" using k by simp
  finally show ?thesis using k by simp
qed

lemma kept_fresh:
  assumes "\<forall>(p, e) \<in> set xs. now - entry_timestamp e < fileCacheTtl"
  shows "filter (\<lambda>(filePath, entry). \<not> (now - entry_timestamp entry > fileCacheTtl)) xs = xs"
  using assms by (induction xs) auto

text \<open>
  Claim C3. When the file cache holds 101 entries under pairwise distinct paths, all
  younger than the file time to live of 10 minutes, one call of \<^verbatim>\<open>cleanupCache\<close>
  leaves exactly 50 entries, each an entry of the cache before, and fewer than 50
  entries of the cache before have a later timestamp than a surviving one: the
  survivors are among the 50 latest. Distinct timestamps are not needed for this.
\<close>

theorem cleanupCache_keeps_latest_50:
  assumes len: "length (fileCache c) = 101"
    and paths: "distinct (map fst (fileCache c))"
    and fresh: "\<forall>(p, e) \<in> set (fileCache c). now - entry_timestamp e < fileCacheTtl"
  shows "length (fileCache (cleanupCache now c)) = 50 \<and>
         distinct (map fst (fileCache (cleanupCache now c))) \<and>
         set (fileCache (cleanupCache now c)) \<subseteq> set (fileCache c) \<and>
         (\<forall>x \<in> set (fileCache (cleanupCache now c)).
            card {y \<in> set (fileCache c).
                    entry_timestamp (snd x) < entry_timestamp (snd y)} < 50)"
proof -
  let ?ts = "\<lambda>(path, data). entry_timestamp data"
  let ?sorted = "sort_key ?ts (fileCache c)"
  let ?last = "slice_last 50 ?sorted"
  have last: "?last = drop 51 ?sorted"
    by (simp add: slice_last_def len)
  have "distinct (fileCache c) \<and> inj_on fst (set (fileCache c))"
    using paths by (simp add: distinct_map)
  then have "distinct (map fst ?sorted)"
    by (simp add: distinct_map)
  then have dl: "distinct (map fst ?last)"
    unfolding last by (simp add: drop_map [symmetric])
  have refill: "foldl (\<lambda>m (path, data). AList.update path data m) [] ?last = ?last"
    using Map_refill [of "[]" ?last] dl by simp
  have res: "fileCache (cleanupCache now c) = ?last"
    using len refill by (simp add: cleanupCache_def kept_fresh [OF fresh] Let_def split: option.split)
  have srt: "sorted (map ?ts ?sorted)"
    by (rule sorted_sort_key)
  have rank: "card {y \<in> set (fileCache c). ?ts x < ?ts y} < 50" if "x \<in> set ?last" for x
  proof -
    from that have "x \<in> set (drop 51 ?sorted)" by (simp only: last)
    from rank_of_last [OF srt this] show ?thesis by (simp add: len)
  qed
  have sub: "set ?last \<subseteq> set (fileCache c)"
    unfolding last using set_drop_subset [of 51 ?sorted] by simp
  show ?thesis
    unfolding res using dl sub rank by (auto simp: last len split_beta)
qed


theorem cleanupCache_keeps_latest_50_witness:
  "length (fileCache full_file_cache) = 101 \<and>
   distinct (map fst (fileCache full_file_cache)) \<and>
   list_all (\<lambda>(p, e). 2000 - entry_timestamp e < fileCacheTtl) (fileCache full_file_cache) \<and>
   length (fileCache (cleanupCache 2000 full_file_cache)) = 50 \<and>
   distinct (map fst (fileCache (cleanupCache 2000 full_file_cache))) \<and>
   set (fileCache (cleanupCache 2000 full_file_cache)) \<subseteq> set (fileCache full_file_cache)"
proof -
  have len: "length (fileCache full_file_cache) = 101"
    by (simp add: full_file_cache_def)
  have "inj_on (\<lambda>i. ''/work/app/.claude/agents/'' @ replicate i CHR ''a'' @ ''.md'') {0..<101}"
  proof (rule inj_onI)
    fix i j :: nat
    assume "''/work/app/.claude/agents/'' @ replicate i CHR ''a'' @ ''.md'' =
            ''/work/app/.claude/agents/'' @ replicate j CHR ''a'' @ ''.md''"
    then have "length (replicate i CHR ''a'') = length (replicate j CHR ''a'')"
      by simp
    then show "i = j" by simp
  qed
  then have paths: "distinct (map fst (fileCache full_file_cache))"
    by (simp add: full_file_cache_def distinct_map comp_def)
  have fresh: "\<forall>(p, e) \<in> set (fileCache full_file_cache). 2000 - entry_timestamp e < fileCacheTtl"
    by (auto simp: full_file_cache_def fileCacheTtl_def)
  then have fresh': "list_all (\<lambda>(p, e). 2000 - entry_timestamp e < fileCacheTtl)
      (fileCache full_file_cache)"
    by (simp add: list_all_iff)
  show ?thesis
    using cleanupCache_keeps_latest_50 [OF len paths fresh] len paths fresh' by blast
qed

section \<open>What each analyzer writes\<close>

lemma agent_file_step_snapshot:
  assumes "agent_file_step e dir (t, b, c) file = (t', b', c')"
  shows "cache_timestamp c' = cache_timestamp c \<and> cache_projectPath c' = cache_projectPath c \<and>
         cache_mcpTools c' = cache_mcpTools c \<and> cache_memoryFiles c' = cache_memoryFiles c"
  using assms
  by (auto simp: agent_file_step_def Let_def split: if_splits option.splits)

lemma agent_files_snapshot:
  assumes "foldl (agent_file_step e dir) (t, b, c) files = (t', b', c')"
  shows "cache_timestamp c' = cache_timestamp c \<and> cache_projectPath c' = cache_projectPath c \<and>
         cache_mcpTools c' = cache_mcpTools c \<and> cache_memoryFiles c' = cache_memoryFiles c"
  using assms
proof (induction files arbitrary: t b c)
  case Nil
  then show ?case by simp
next
  case (Cons f files)
  obtain t1 b1 c1 where step: "agent_file_step e dir (t, b, c) f = (t1, b1, c1)"
    by (cases "agent_file_step e dir (t, b, c) f")
  with Cons.prems have "foldl (agent_file_step e dir) (t1, b1, c1) files = (t', b', c')"
    by simp
  from Cons.IH [OF this] agent_file_step_snapshot [OF step] show ?case
    by simp
qed

lemma analyzeMcpTools_result:
  assumes "analyzeMcpTools e projectRoot c0 (r, c) = (s, r', c')"
  shows "systemPrompt r' = systemPrompt r" "systemTools r' = systemTools r"
    "customAgents r' = customAgents r" "memoryFiles r' = memoryFiles r"
    "s = (mcp_hit e projectRoot c0 \<or> mcpInTime e)"
    "\<not> mcp_hit e projectRoot c0 \<Longrightarrow> \<not> mcpInTime e \<Longrightarrow> mcpTools r' = mcpTools r"
    "\<not> mcp_hit e projectRoot c0 \<Longrightarrow> mcpInTime e \<Longrightarrow> enabledServers e = None \<Longrightarrow> mcpTools r' = Num 120000"
    "\<not> mcp_hit e projectRoot c0 \<Longrightarrow> mcpInTime e \<Longrightarrow> enabledServers e = Some servers \<Longrightarrow>
       mcpTools r' = fst (foldl mcp_server_step (Num 0, [], []) servers)"
    "cache_timestamp c' =
       (if \<not> mcp_hit e projectRoot c0 \<and> mcpInTime e \<and> enabledServers e \<noteq> None
        then Some (mcpTime e) else cache_timestamp c)"
    "cache_projectPath c' =
       (if \<not> mcp_hit e projectRoot c0 \<and> mcpInTime e \<and> enabledServers e \<noteq> None
        then Some projectRoot else cache_projectPath c)"
  using assms
  by (auto simp: analyzeMcpTools_def mcp_hit_def split: if_splits option.splits prod.splits)

lemma analyzeCustomAgents_result:
  assumes "analyzeCustomAgents e dir projectRoot c0 (r, c) = (s, r', c')"
  shows "systemPrompt r' = systemPrompt r" "systemTools r' = systemTools r"
    "mcpTools r' = mcpTools r" "memoryFiles r' = memoryFiles r"
    "s = (agents_hit e projectRoot c0 \<or> agentsInTime e)"
    "is_integer (customAgents r) \<Longrightarrow> is_integer (customAgents r')"
    "\<not> agents_hit e projectRoot c0 \<Longrightarrow> \<not> agentsInTime e \<Longrightarrow> customAgents r' = customAgents r"
    "\<not> agents_hit e projectRoot c0 \<Longrightarrow> agentsInTime e \<Longrightarrow> agentsDir e = DirUnreadable \<Longrightarrow>
       customAgents r' = Num 8900"
    "\<not> agents_hit e projectRoot c0 \<Longrightarrow> agentsInTime e \<Longrightarrow> agentsDir e = DirMissing \<Longrightarrow>
       customAgents r' = Num 0 \<and> agents r' = Some []"
    "cache_timestamp c' = cache_timestamp c" "cache_projectPath c' = cache_projectPath c"
  using assms
  by (auto simp: analyzeCustomAgents_def agents_hit_def
      split: if_splits option.splits prod.splits agents_dir.splits
      dest: agent_files_snapshot)

lemma analyzeMemoryFiles_result:
  assumes "analyzeMemoryFiles e dir projectRoot c0 (r, c) = (s, r', c')"
  shows "systemPrompt r' = systemPrompt r" "systemTools r' = systemTools r"
    "mcpTools r' = mcpTools r" "customAgents r' = customAgents r"
    "s"
    "is_integer (memoryFiles r')"
    "\<not> memory_hit e dir projectRoot c0 \<Longrightarrow> claudeMd e = None \<Longrightarrow> memoryFiles r' = Num 2700"
    "cache_timestamp c' = cache_timestamp c" "cache_projectPath c' = cache_projectPath c"
  using assms
  by (auto simp: analyzeMemoryFiles_def memory_hit_def Let_def
      split: if_splits option.splits prod.splits)

lemma recommendations_keep_fields:
  "systemPrompt (generateOptimizationRecommendations r) = systemPrompt r"
  "systemTools (generateOptimizationRecommendations r) = systemTools r"
  "mcpTools (generateOptimizationRecommendations r) = mcpTools r"
  "customAgents (generateOptimizationRecommendations r) = customAgents r"
  "memoryFiles (generateOptimizationRecommendations r) = memoryFiles r"
  by (simp_all add: generateOptimizationRecommendations_def Let_def)

lemma analyze_unfolded:
  assumes init: "initialize e claudeDirArg = Some claudeDir"
  obtains s1 r1 c2 s2 r2 c3 s3 r3 c4 where
    "analyzeMcpTools e (path_dirname e claudeDir) (cleanupCache (clock e) c)
       (analyzeSystemTools (analyzeSystemPrompt (new_results (Some (path_dirname e claudeDir)))),
        cleanupCache (clock e) c) = (s1, r1, c2)"
    "analyzeCustomAgents e claudeDir (path_dirname e claudeDir) (cleanupCache (clock e) c)
       (r1, c2) = (s2, r2, c3)"
    "analyzeMemoryFiles e claudeDir (path_dirname e claudeDir) (cleanupCache (clock e) c)
       (r2, c3) = (s3, r3, c4)"
    "analyze e claudeDirArg c =
       (Inr ((if s1 \<and> s2 \<and> s3 then generateOptimizationRecommendations r3 else r3)
              \<lparr>total' := js_add (js_add (js_add (js_add (systemPrompt r3) (systemTools r3))
                            (mcpTools r3)) (customAgents r3)) (memoryFiles r3)\<rparr>), c4)"
proof -
  let ?cc = "cleanupCache (clock e) c"
  let ?root = "path_dirname e claudeDir"
  let ?start = "analyzeSystemTools (analyzeSystemPrompt (new_results (Some ?root)))"
  obtain s1 r1 c2 where m: "analyzeMcpTools e ?root ?cc (?start, ?cc) = (s1, r1, c2)"
    by (cases "analyzeMcpTools e ?root ?cc (?start, ?cc)")
  obtain s2 r2 c3 where a: "analyzeCustomAgents e claudeDir ?root ?cc (r1, c2) = (s2, r2, c3)"
    by (cases "analyzeCustomAgents e claudeDir ?root ?cc (r1, c2)")
  obtain s3 r3 c4 where f: "analyzeMemoryFiles e claudeDir ?root ?cc (r2, c3) = (s3, r3, c4)"
    by (cases "analyzeMemoryFiles e claudeDir ?root ?cc (r2, c3)")
  have "analyze e claudeDirArg c =
       (Inr ((if s1 \<and> s2 \<and> s3 then generateOptimizationRecommendations r3 else r3)
              \<lparr>total' := js_add (js_add (js_add (js_add (systemPrompt r3) (systemTools r3))
                            (mcpTools r3)) (customAgents r3)) (memoryFiles r3)\<rparr>), c4)"
    by (simp add: analyze_def Let_def init m a f recommendations_keep_fields)
  with m a f show thesis by (rule that)
qed

section \<open>The server tables and the server loop\<close>

lemma get_known:
  "get_property mcpToolsData ''fetch'' =
     Own \<lparr>sd_total = 643, sd_tools = [(''mcp__fetch__fetch'', 643)]\<rparr>"
  "get_property mcpToolsData ''sequential-thinking'' =
     Own \<lparr>sd_total = 1300,
          sd_tools = [(''mcp__sequential-thinking__sequentialthinking'', 1300)]\<rparr>"
  "get_property mcpServers_simple ''fetch'' =
     Own \<lparr>sd_total = 643, sd_tools = [(''mcp__fetch__fetch'', 643)]\<rparr>"
  "get_property mcpServers_simple ''sequential-thinking'' =
     Own \<lparr>sd_total = 1300,
          sd_tools = [(''mcp__sequential-thinking__sequentialthinking'', 1300)]\<rparr>"
  by (simp_all add: get_property_def mcpToolsData_def mcpServers_simple_def)

lemma table_keys:
  "map fst mcpToolsData =
     [''fetch'', ''sequential-thinking'', ''byterover-mcp'', ''puppeteer'', ''mcp-playwright'',
      ''everything'', ''github-official'', ''mcp-filesystem'', ''context7-mcp'',
      ''brave-search'', ''deep-code-reasoning'', ''supabase'', ''zen-mcp-server'',
      ''claude-flow_Docs'', ''perplexity-mcp'', ''Prisma-Local'', ''firecrawl'',
      ''BMAD-METHOD DOCS'', ''awesome-ui-component-library Docs'']"
  "map fst mcpServers_simple =
     [''fetch'', ''sequential-thinking'', ''puppeteer'', ''mcp-playwright'', ''everything'',
      ''github-official'', ''mcp-filesystem'', ''context7-mcp'', ''brave-search'',
      ''deep-code-reasoning'', ''supabase'', ''perplexity-mcp'', ''firecrawl'',
      ''awesome-ui-component-library Docs'', ''BMAD-METHOD DOCS'']"
  by (simp_all add: mcpToolsData_def mcpServers_simple_def)

lemma inherited_not_in_tables:
  assumes "k \<in> set Object_prototype_names"
  shows "map_of mcpToolsData k = None" "map_of mcpServers_simple k = None"
proof -
  have "k \<notin> set (map fst mcpToolsData)" "k \<notin> set (map fst mcpServers_simple)"
    using assms unfolding table_keys by (auto simp: Object_prototype_names_def)
  then show "map_of mcpToolsData k = None" "map_of mcpServers_simple k = None"
    by (simp_all add: map_of_eq_None_iff)
qed

lemma get_inherited:
  "k \<in> set Object_prototype_names \<Longrightarrow> get_property mcpToolsData k = Inherited"
  "k \<in> set Object_prototype_names \<Longrightarrow> get_property mcpServers_simple k = Inherited"
  by (simp_all add: get_property_def inherited_not_in_tables)

lemma get_not_inherited:
  "k \<notin> set Object_prototype_names \<Longrightarrow>
   get_property table k = (case map_of table k of Some d \<Rightarrow> Own d | None \<Rightarrow> Undefined)"
  by (simp add: get_property_def split: option.split)

lemma mcp_server_step_known:
  assumes "map_of mcpToolsData server = Some serverData"
  shows "mcp_server_step (Num t, b, d) server =
           (Num (t + sd_total serverData), set_property server (Some (sd_total serverData)) b,
            set_property server (Some (sd_tools serverData)) d)"
  using assms by (simp add: mcp_server_step_def get_property_def)

lemma mcp_server_step_unknown:
  assumes "map_of mcpToolsData server = None" and "server \<notin> set Object_prototype_names"
  shows "mcp_server_step (Num t, b, d) server =
           (Num (t + 2000), set_property server (Some 2000) b,
            set_property server (Some [(''mcp__'' @ server @ ''__unknown'', 2000)]) d)"
  using assms by (simp add: mcp_server_step_def get_property_def)

lemma mcp_server_step_inherited:
  assumes "server \<in> set Object_prototype_names"
  shows "mcp_server_step (t, b, d) server =
           (NaN, set_property server None b, set_property server None d)"
  using get_inherited(1) [OF assms] by (cases t) (simp_all add: mcp_server_step_def)

text \<open>
  For a list of names none of which is inherited from \<^verbatim>\<open>Object.prototype\<close> the two
  loops add up what the spec says: the table's total for a known name, 2000 for an
  unknown one.
\<close>

lemma mcp_server_step_total:
  assumes "server \<notin> set Object_prototype_names"
  shows "fst (mcp_server_step (Num t, b, d) server) =
           Num (t + spec_server_tokens mcpToolsData server)"
  using assms
  by (simp add: mcp_server_step_def get_not_inherited spec_server_tokens_def split: option.split)

lemma mcp_loop_total:
  assumes "\<forall>s \<in> set servers. s \<notin> set Object_prototype_names"
  shows "fst (foldl mcp_server_step (Num t, b, d) servers) =
           Num (t + sum_list (map (spec_server_tokens mcpToolsData) servers))"
  using assms
proof (induction servers arbitrary: t b d)
  case Nil
  then show ?case by simp
next
  case (Cons s servers)
  obtain t1 b1 d1 where step: "mcp_server_step (Num t, b, d) s = (t1, b1, d1)"
    by (cases "mcp_server_step (Num t, b, d) s")
  from Cons.prems have "s \<notin> set Object_prototype_names" by simp
  from mcp_server_step_total [OF this, of t b d] step
  have t1: "t1 = Num (t + spec_server_tokens mcpToolsData s)" by simp
  from Cons.prems have "\<forall>s \<in> set servers. s \<notin> set Object_prototype_names" by simp
  from Cons.IH [OF this] show ?case
    by (simp add: step t1 add.assoc)
qed

lemma simple_server_step_total:
  assumes "server \<notin> set Object_prototype_names"
  shows "fst (simple_server_step (Num t, d) server) =
           Num (t + spec_server_tokens mcpServers_simple server)"
  using assms
  by (simp add: simple_server_step_def get_not_inherited spec_server_tokens_def split: option.split)

lemma simple_loop_total:
  assumes "\<forall>s \<in> set servers. s \<notin> set Object_prototype_names"
  shows "fst (foldl simple_server_step (Num t, d) servers) =
           Num (t + sum_list (map (spec_server_tokens mcpServers_simple) servers))"
  using assms
proof (induction servers arbitrary: t d)
  case Nil
  then show ?case by simp
next
  case (Cons s servers)
  obtain t1 d1 where step: "simple_server_step (Num t, d) s = (t1, d1)"
    by (cases "simple_server_step (Num t, d) s")
  from Cons.prems have "s \<notin> set Object_prototype_names" by simp
  from simple_server_step_total [OF this, of t d] step
  have t1: "t1 = Num (t + spec_server_tokens mcpServers_simple s)" by simp
  from Cons.prems have "\<forall>s \<in> set servers. s \<notin> set Object_prototype_names" by simp
  from Cons.IH [OF this] show ?case
    by (simp add: step t1 add.assoc)
qed

text \<open>
  Claim C5, at its failing input. Enabling \<^verbatim>\<open>fetch\<close> and \<^verbatim>\<open>sequential-thinking\<close> gives
  1943 tokens in both analyzers, and an unknown name such as \<^verbatim>\<open>my-server\<close> gives 2000
  tokens and one synthetic tool entry. But the name \<^verbatim>\<open>constructor\<close>, which is in
  neither table, is found on the table's prototype: the loop takes the branch of the
  known servers, adds its \<^verbatim>\<open>undefined\<close> total and ends with \<^verbatim>\<open>NaN\<close> and no tool
  entry, where the claim says 2000 and one synthetic entry.
\<close>

theorem mcp_inherited_name_is_not_a_number:
  "fst (foldl mcp_server_step (Num 0, [], []) [''fetch'', ''sequential-thinking'']) = Num 1943 \<and>
   fst (simple_mcp sample_env) = Num 1943 \<and>
   foldl mcp_server_step (Num 0, [], []) [''my-server''] =
     (Num 2000, [(''my-server'', Some 2000)],
      [(''my-server'', Some [(''mcp__my-server__unknown'', 2000)])]) \<and>
   map_of mcpToolsData ''constructor'' = None \<and>
   map_of mcpServers_simple ''constructor'' = None \<and>
   foldl mcp_server_step (Num 0, [], []) [''constructor''] =
     (NaN, [(''constructor'', None)], [(''constructor'', None)]) \<and>
   simple_mcp constructor_env = (NaN, [(''constructor'', None)])"
proof -
  have c: "''constructor'' \<in> set Object_prototype_names"
    by (simp add: Object_prototype_names_def)
  have u: "''my-server'' \<notin> set Object_prototype_names"
    "''my-server'' \<notin> set (map fst mcpToolsData)"
    unfolding table_keys by (simp_all add: Object_prototype_names_def)
  from u(2) have "map_of mcpToolsData ''my-server'' = None"
    by (simp only: map_of_eq_None_iff set_map not_False_eq_True)
  with u(1) have "get_property mcpToolsData ''my-server'' = Undefined"
    by (simp add: get_not_inherited)
  then show ?thesis
    using get_inherited [OF c] inherited_not_in_tables [OF c]
    by (simp add: mcp_server_step_def simple_server_step_def simple_mcp_def get_known
          set_property_def sample_env_def constructor_env_def)
qed

section \<open>The aggregator\<close>

lemmas eval_defs = analyze_def initialize_def cleanupCache_def empty_cache_def analyzeMcpTools_def
  analyzeCustomAgents_def analyzeMemoryFiles_def analyzeSystemPrompt_def analyzeSystemTools_def
  new_results_def isCacheValid_def isFileCacheValid_def enabledServers_def mcp_server_step_def
  get_known set_property_def generateOptimizationRecommendations_def serverCount_def
  Object_keys_def posix_dirname_def posix_join_def sample_env_def Let_def
  consolidate_servers_def

lemma constructor_inherited: "''constructor'' \<in> set Object_prototype_names"
  "''__proto__'' \<in> set Object_prototype_names"
  by (simp_all add: Object_prototype_names_def)



text \<open>
  When no enabled server bears a name inherited from \<^verbatim>\<open>Object.prototype\<close> and the
  cached snapshot, if any, holds an integer, all five categories of the result are
  integers and the total is their integer sum, whatever failed or was late.
\<close>

lemma analyzeMcpTools_integer:
  assumes run: "analyzeMcpTools e projectRoot c0 (r, c) = (s, r', c')"
    and start: "is_integer (mcpTools r)"
    and cached: "\<forall>snap. cache_mcpTools c0 = Some snap \<longrightarrow> is_integer (snap_total snap)"
    and names: "\<forall>servers. enabledServers e = Some servers \<longrightarrow>
                  (\<forall>s \<in> set servers. s \<notin> set Object_prototype_names)"
  shows "is_integer (mcpTools r')"
proof (cases "mcp_hit e projectRoot c0")
  case True
  then obtain snap where snap: "cache_mcpTools c0 = Some snap"
    and valid: "isCacheValid (clock e) c0 projectRoot"
    by (auto simp: mcp_hit_def)
  with run have "mcpTools r' = snap_total snap"
    by (auto simp: analyzeMcpTools_def)
  with cached snap show ?thesis by simp
next
  case miss: False
  show ?thesis
  proof (cases "mcpInTime e")
    case False
    with miss analyzeMcpTools_result(6) [OF run] start show ?thesis by simp
  next
    case True
    show ?thesis
    proof (cases "enabledServers e")
      case None
      with miss True analyzeMcpTools_result(7) [OF run] show ?thesis by simp
    next
      case (Some servers)
      with names have "\<forall>s \<in> set servers. s \<notin> set Object_prototype_names" by simp
      from mcp_loop_total [OF this, of 0 "[]" "[]"]
        analyzeMcpTools_result(8) [OF run miss True Some]
      show ?thesis by simp
    qed
  qed
qed

lemma analyze_integer_total:
  assumes init: "initialize e claudeDirArg = Some claudeDir"
    and cached: "\<forall>snap. cache_mcpTools (cleanupCache (clock e) c) = Some snap \<longrightarrow>
                   is_integer (snap_total snap)"
    and names: "\<forall>servers. enabledServers e = Some servers \<longrightarrow>
                  (\<forall>s \<in> set servers. s \<notin> set Object_prototype_names)"
  shows "\<exists>r c' m a f. analyze e claudeDirArg c = (Inr r, c') \<and>
           systemPrompt r = Num 8500 \<and> systemTools r = Num 15200 \<and> mcpTools r = Num m \<and>
           customAgents r = Num a \<and> memoryFiles r = Num f \<and>
           total' r = Num (8500 + 15200 + m + a + f)"
proof -
  let ?cc = "cleanupCache (clock e) c"
  let ?root = "path_dirname e claudeDir"
  let ?start = "analyzeSystemTools (analyzeSystemPrompt (new_results (Some ?root)))"
  from init obtain s1 r1 c2 s2 r2 c3 s3 r3 c4 where
    m: "analyzeMcpTools e ?root ?cc (?start, ?cc) = (s1, r1, c2)" and
    a: "analyzeCustomAgents e claudeDir ?root ?cc (r1, c2) = (s2, r2, c3)" and
    f: "analyzeMemoryFiles e claudeDir ?root ?cc (r2, c3) = (s3, r3, c4)" and
    res: "analyze e claudeDirArg c =
       (Inr ((if s1 \<and> s2 \<and> s3 then generateOptimizationRecommendations r3 else r3)
              \<lparr>total' := js_add (js_add (js_add (js_add (systemPrompt r3) (systemTools r3))
                            (mcpTools r3)) (customAgents r3)) (memoryFiles r3)\<rparr>), c4)"
    by (rule analyze_unfolded)
  let ?res = "(if s1 \<and> s2 \<and> s3 then generateOptimizationRecommendations r3 else r3)
              \<lparr>total' := js_add (js_add (js_add (js_add (systemPrompt r3) (systemTools r3))
                            (mcpTools r3)) (customAgents r3)) (memoryFiles r3)\<rparr>"
  have r0: "systemPrompt ?start = Num 8500" "systemTools ?start = Num 15200"
    "mcpTools ?start = Num 0" "customAgents ?start = Num 0" "memoryFiles ?start = Num 0"
    by (simp_all add: analyzeSystemTools_def analyzeSystemPrompt_def new_results_def)
  have sp: "systemPrompt r3 = Num 8500" "systemTools r3 = Num 15200"
    using analyzeMcpTools_result(1,2) [OF m] analyzeCustomAgents_result(1,2) [OF a]
      analyzeMemoryFiles_result(1,2) [OF f] r0 by simp_all
  have "is_integer (mcpTools r1)"
    using analyzeMcpTools_integer [OF m _ cached names] r0 by simp
  then have "is_integer (mcpTools r3)"
    using analyzeCustomAgents_result(3) [OF a] analyzeMemoryFiles_result(3) [OF f] by simp
  then obtain mm where mm: "mcpTools r3 = Num mm"
    by (cases "mcpTools r3") simp_all
  have "is_integer (customAgents r2)"
    using analyzeCustomAgents_result(6) [OF a] analyzeMcpTools_result(3) [OF m] r0 by simp
  then have "is_integer (customAgents r3)"
    using analyzeMemoryFiles_result(4) [OF f] by simp
  then obtain aa where aa: "customAgents r3 = Num aa"
    by (cases "customAgents r3") simp_all
  have "is_integer (memoryFiles r3)"
    using analyzeMemoryFiles_result(6) [OF f] by simp
  then obtain ff where ff: "memoryFiles r3 = Num ff"
    by (cases "memoryFiles r3") simp_all
  have "systemPrompt ?res = Num 8500 \<and> systemTools ?res = Num 15200 \<and> mcpTools ?res = Num mm \<and>
        customAgents ?res = Num aa \<and> memoryFiles ?res = Num ff \<and>
        total' ?res = Num (8500 + 15200 + mm + aa + ff)"
    using sp mm aa ff by (simp add: recommendations_keep_fields)
  with res show ?thesis by blast
qed

text \<open>
  Claim C1, at its failing input. With the one enabled server \<^verbatim>\<open>constructor\<close> the
  aggregator returns a result whose server tokens are \<^verbatim>\<open>NaN\<close>, not an integer, and
  whose total is \<^verbatim>\<open>NaN\<close>; the other four fields are the integers 8500, 15200, 0 and
  2700. The simplified analyzer computes a \<^verbatim>\<open>NaN\<close> total for the server \<^verbatim>\<open>__proto__\<close>,
  and throws while it renders the report for the server \<^verbatim>\<open>constructor\<close>.
\<close>

theorem analyze_total_is_not_a_number:
  "(case fst (analyze constructor_env None empty_cache) of
      Inr r \<Rightarrow> mcpTools r = NaN \<and> \<not> is_integer (mcpTools r) \<and> total' r = NaN \<and>
               systemPrompt r = Num 8500 \<and> systemTools r = Num 15200 \<and>
               customAgents r = Num 0 \<and> memoryFiles r = Num 2700
    | Inl err \<Rightarrow> False) \<and>
   (case analyze_simple proto_env of
      Inr t \<Rightarrow> s_mcpTools t = NaN \<and> s_total t = NaN
    | Inl err \<Rightarrow> False) \<and>
   analyze_simple constructor_env = Inl TypeError"
  using get_inherited [OF constructor_inherited(1)] get_inherited [OF constructor_inherited(2)]
  by (simp add: eval_defs constructor_env_def proto_env_def analyze_simple_def simple_mcp_def
        simple_agents_def simple_memory_def simple_server_step_def)

text \<open>
  A new analyzer with a directory given or found returns a result and raises nothing,
  whatever is missing, malformed or late. The system prompt and system tools are 8500
  and 15200, the agent and memory tokens are integers, and the total is the sum of the
  five fields. A category that is not answered from the cache holds its fallback
  constant when its analyzer failed (120000 without readable settings, 8900 for an
  unreadable agents directory, 2700 without a memory file read within its own
  timer). The \<^verbatim>\<open>catch\<close> of \<^verbatim>\<open>analyze\<close> substitutes nothing: the server tokens and
  the agent tokens are still 0 when their analyzer is late.
\<close>

lemma analyze_never_raises:
  assumes init: "initialize e claudeDirArg = Some claudeDir"
  shows "\<exists>r c'. analyze e claudeDirArg c = (Inr r, c') \<and>
      systemPrompt r = Num 8500 \<and> systemTools r = Num 15200 \<and>
      is_integer (customAgents r) \<and> is_integer (memoryFiles r) \<and>
      total' r = js_add (js_add (js_add (js_add (systemPrompt r) (systemTools r))
                   (mcpTools r)) (customAgents r)) (memoryFiles r) \<and>
      (\<not> mcp_hit e (path_dirname e claudeDir) (cleanupCache (clock e) c) \<longrightarrow>
         (\<not> mcpInTime e \<longrightarrow> mcpTools r = Num 0) \<and>
         (mcpInTime e \<and> enabledServers e = None \<longrightarrow> mcpTools r = Num 120000)) \<and>
      (\<not> agents_hit e (path_dirname e claudeDir) (cleanupCache (clock e) c) \<longrightarrow>
         (\<not> agentsInTime e \<longrightarrow> customAgents r = Num 0) \<and>
         (agentsInTime e \<and> agentsDir e = DirUnreadable \<longrightarrow> customAgents r = Num 8900)) \<and>
      (\<not> memory_hit e claudeDir (path_dirname e claudeDir) (cleanupCache (clock e) c) \<and>
         claudeMd e = None \<longrightarrow> memoryFiles r = Num 2700)"
proof -
  let ?cc = "cleanupCache (clock e) c"
  let ?root = "path_dirname e claudeDir"
  let ?start = "analyzeSystemTools (analyzeSystemPrompt (new_results (Some ?root)))"
  from init obtain s1 r1 c2 s2 r2 c3 s3 r3 c4 where
    m: "analyzeMcpTools e ?root ?cc (?start, ?cc) = (s1, r1, c2)" and
    a: "analyzeCustomAgents e claudeDir ?root ?cc (r1, c2) = (s2, r2, c3)" and
    f: "analyzeMemoryFiles e claudeDir ?root ?cc (r2, c3) = (s3, r3, c4)" and
    res: "analyze e claudeDirArg c =
       (Inr ((if s1 \<and> s2 \<and> s3 then generateOptimizationRecommendations r3 else r3)
              \<lparr>total' := js_add (js_add (js_add (js_add (systemPrompt r3) (systemTools r3))
                            (mcpTools r3)) (customAgents r3)) (memoryFiles r3)\<rparr>), c4)"
    by (rule analyze_unfolded)
  let ?res = "(if s1 \<and> s2 \<and> s3 then generateOptimizationRecommendations r3 else r3)
              \<lparr>total' := js_add (js_add (js_add (js_add (systemPrompt r3) (systemTools r3))
                            (mcpTools r3)) (customAgents r3)) (memoryFiles r3)\<rparr>"
  have r0: "systemPrompt ?start = Num 8500" "systemTools ?start = Num 15200"
    "mcpTools ?start = Num 0" "customAgents ?start = Num 0" "memoryFiles ?start = Num 0"
    by (simp_all add: analyzeSystemTools_def analyzeSystemPrompt_def new_results_def)
  have fields: "systemPrompt ?res = systemPrompt r3" "systemTools ?res = systemTools r3"
    "mcpTools ?res = mcpTools r3" "customAgents ?res = customAgents r3"
    "memoryFiles ?res = memoryFiles r3"
    by (simp_all add: recommendations_keep_fields)
  have sp: "systemPrompt r3 = Num 8500" "systemTools r3 = Num 15200"
    using analyzeMcpTools_result(1,2) [OF m] analyzeCustomAgents_result(1,2) [OF a]
      analyzeMemoryFiles_result(1,2) [OF f] r0 by simp_all
  have mcp: "mcpTools r3 = mcpTools r1"
    using analyzeCustomAgents_result(3) [OF a] analyzeMemoryFiles_result(3) [OF f] by simp
  have ag: "customAgents r3 = customAgents r2" "customAgents r1 = Num 0"
    using analyzeMemoryFiles_result(4) [OF f] analyzeMcpTools_result(3) [OF m] r0 by simp_all
  have int_ag: "is_integer (customAgents r3)"
    using analyzeCustomAgents_result(6) [OF a] ag by simp
  have int_mem: "is_integer (memoryFiles r3)"
    using analyzeMemoryFiles_result(6) [OF f] by simp
  have p1: "systemPrompt ?res = Num 8500" "systemTools ?res = Num 15200"
    using fields sp by simp_all
  have p2: "is_integer (customAgents ?res)" "is_integer (memoryFiles ?res)"
    using fields int_ag int_mem by simp_all
  have p3: "total' ?res = js_add (js_add (js_add (js_add (systemPrompt ?res) (systemTools ?res))
                   (mcpTools ?res)) (customAgents ?res)) (memoryFiles ?res)"
    by (simp add: recommendations_keep_fields)
  have p4: "\<not> mcp_hit e ?root ?cc \<longrightarrow>
         (\<not> mcpInTime e \<longrightarrow> mcpTools ?res = Num 0) \<and>
         (mcpInTime e \<and> enabledServers e = None \<longrightarrow> mcpTools ?res = Num 120000)"
    using analyzeMcpTools_result(6,7) [OF m] mcp r0 fields by simp
  have p5: "\<not> agents_hit e ?root ?cc \<longrightarrow>
         (\<not> agentsInTime e \<longrightarrow> customAgents ?res = Num 0) \<and>
         (agentsInTime e \<and> agentsDir e = DirUnreadable \<longrightarrow> customAgents ?res = Num 8900)"
    using analyzeCustomAgents_result(7,8) [OF a] ag fields by simp
  have p6: "\<not> memory_hit e claudeDir ?root ?cc \<and> claudeMd e = None \<longrightarrow>
         memoryFiles ?res = Num 2700"
    using analyzeMemoryFiles_result(7) [OF f] fields by simp
  show ?thesis
    using res p1 p2 p3 p4 p5 p6 by blast
qed

text \<open>
  Claim C2, at its failing input. The project enables \<^verbatim>\<open>fetch\<close> and
  \<^verbatim>\<open>sequential-thinking\<close>, and the read of its settings finishes only after the timer
  of \<^verbatim>\<open>analyze\<close> has fired. \<^verbatim>\<open>analyze\<close> returns and raises nothing, but the server
  tokens of the result are the 0 the constructor wrote, with no breakdown, and the total
  is 26400: the field holds neither the real value, the 1943 the same settings give
  when read in time, nor the analyzer's fallback, the 120000 it takes when the settings
  cannot be read. The claim says every category field holds a real or fallback value,
  and the timer's own error reads \<^verbatim>\<open>using cached/fallback values\<close>.
\<close>

theorem analyze_late_settings_leave_zero:
  "(case fst (analyze delayed_env None empty_cache) of
      Inr r \<Rightarrow> mcpTools r = Num 0 \<and> mcpServers r = None \<and> mcpToolsDetailed r = None \<and>
               systemPrompt r = Num 8500 \<and> systemTools r = Num 15200 \<and>
               customAgents r = Num 0 \<and> memoryFiles r = Num 2700 \<and>
               total' r = Num 26400 \<and> optimization r = []
    | Inl err \<Rightarrow> False) \<and>
   (case fst (analyze sample_env None empty_cache) of
      Inr r \<Rightarrow> mcpTools r = Num 1943 \<and> total' r = Num 28343
    | Inl err \<Rightarrow> False) \<and>
   (case fst (analyze no_settings_env None empty_cache) of
      Inr r \<Rightarrow> mcpTools r = Num 120000 \<and> total' r = Num 146400
    | Inl err \<Rightarrow> False)"
  by (simp add: eval_defs delayed_env_def no_settings_env_def)




section \<open>The agents directory\<close>

text \<open>
  Claim C6, amended. For a project without an \<^verbatim>\<open>agents\<close> directory the analyzer of
  \<^verbatim>\<open>analyzeCustomAgents\<close>, when it is not answered from a valid snapshot of the cache,
  settles with 0 agent tokens and an empty breakdown and leaves the cache as it is.
  The simplified analyzer sets the fallback of 4500 agent tokens, with an empty
  breakdown. Neither raises an error.
\<close>

theorem missing_agents_directory:
  assumes "agentsDir e = DirMissing"
  shows "(agentsInTime e \<and> \<not> agents_hit e projectRoot c0 \<longrightarrow>
            analyzeCustomAgents e claudeDir projectRoot c0 (r, c) =
              (True, r\<lparr>customAgents := Num 0, agents := Some []\<rparr>, c)) \<and>
         simple_agents e = (4500, [])"
  using assms
  by (simp add: analyzeCustomAgents_def agents_hit_def simple_agents_def split: option.split)

theorem missing_agents_directory_witness:
  "agentsDir sample_env = DirMissing \<and> agentsInTime sample_env \<and>
   \<not> agents_hit sample_env ''/work/app'' empty_cache \<and>
   analyzeCustomAgents sample_env ''/work/app/.claude'' ''/work/app'' empty_cache
       (new_results (Some ''/work/app''), empty_cache) =
     (True, (new_results (Some ''/work/app''))\<lparr>customAgents := Num 0, agents := Some []\<rparr>,
      empty_cache) \<and>
   simple_agents sample_env = (4500, [])"
proof -
  have h: "agentsDir sample_env = DirMissing" "agentsInTime sample_env"
    "\<not> agents_hit sample_env ''/work/app'' empty_cache"
    by (simp_all add: sample_env_def agents_hit_def isCacheValid_def empty_cache_def)
  from missing_agents_directory [OF h(1), of "''/work/app''" empty_cache "''/work/app/.claude''"
      "new_results (Some ''/work/app'')" empty_cache] h
  show ?thesis by blast
qed

text \<open>
  The claim as stated fails in the simplified analyzer, where the missing directory
  gives 4500 tokens, and in \<^verbatim>\<open>analyzeCustomAgents\<close> when the cache holds a snapshot of
  the project from when it had an agent file.
\<close>

theorem missing_agents_directory_counterexample:
  "agentsDir sample_env = DirMissing \<and>
   fst (simple_agents sample_env) = 4500 \<and>
   (case analyze_simple sample_env of
      Inr t \<Rightarrow> s_customAgents t = Num 4500 \<and> s_agentBreakdown t = []
    | Inl err \<Rightarrow> False) \<and>
   (case fst (analyze sample_env None warm_cache) of
      Inr r \<Rightarrow> customAgents r = Num 500 \<and> agents r = Some [(''reviewer.md'', 500)]
    | Inl err \<Rightarrow> False)"
  by (simp add: eval_defs analyze_simple_def simple_mcp_def simple_agents_def simple_memory_def
        simple_server_step_def warm_cache_def cache_ttl_def)

lemma update_keys_subset:
  "fst ` set (AList.update k v al) \<subseteq> insert k (fst ` set al)"
  by (induction al) auto

lemma set_property_keys:
  "set (map fst (set_property k v obj)) \<subseteq> insert k (set (map fst obj))"
  using update_keys_subset [of k v obj] by (auto simp: set_property_def)

lemma simple_agent_step_keys:
  "set (map fst (snd (simple_agent_step e (t, b) f))) \<subseteq> insert f (set (map fst b))"
  using set_property_keys [of f _ b]
  by (auto simp: simple_agent_step_def Let_def split: option.splits)

lemma simple_agent_loop_keys:
  "set (map fst (snd (foldl (simple_agent_step e) (t, b) files))) \<subseteq> set files \<union> set (map fst b)"
proof (induction files arbitrary: t b)
  case Nil
  then show ?case by simp
next
  case (Cons f files)
  obtain t1 b1 where step: "simple_agent_step e (t, b) f = (t1, b1)"
    by (cases "simple_agent_step e (t, b) f")
  from simple_agent_step_keys [of e t b f] step
  have "set (map fst b1) \<subseteq> insert f (set (map fst b))" by simp
  with Cons.IH [of t1 b1] show ?case
    by (auto simp: step)
qed

lemma simple_agent_loop_cong:
  assumes "\<forall>f \<in> set files. agentFile e' f = agentFile e f"
  shows "foldl (simple_agent_step e') acc files = foldl (simple_agent_step e) acc files"
  using assms
proof (induction files arbitrary: acc)
  case Nil
  then show ?case by simp
next
  case (Cons f files)
  have "simple_agent_step e' acc f = simple_agent_step e acc f"
    using Cons.prems by (cases acc) (simp add: simple_agent_step_def)
  with Cons show ?case by simp
qed

text \<open>
  Claim C10. The simplified analyzer processes only the first ten entries of the
  listing: its result is that of a directory holding just those ten, no name outside
  them is a key of the breakdown, and two directories that agree on the first ten
  entries and their contents give the same tokens and breakdown, however many files
  follow.
\<close>

theorem simple_agents_first_ten:
  assumes "agentsDir e = DirListing files"
  shows "simple_agents e = simple_agents (e\<lparr>agentsDir := DirListing (take 10 files)\<rparr>) \<and>
         (\<forall>f. f \<notin> set (take 10 files) \<longrightarrow>
                f \<notin> set (Object_keys (snd (simple_agents e))) \<and>
                map_of (snd (simple_agents e)) f = None) \<and>
         (\<forall>e' files'. agentsDir e' = DirListing files' \<and> take 10 files' = take 10 files \<and>
                (\<forall>f \<in> set (take 10 files). agentFile e' f = agentFile e f) \<longrightarrow>
                simple_agents e' = simple_agents e)"
proof -
  have sa: "simple_agents e = foldl (simple_agent_step e) (0, []) (take 10 files)"
    using assms by (simp add: simple_agents_def)
  have one: "simple_agents e = simple_agents (e\<lparr>agentsDir := DirListing (take 10 files)\<rparr>)"
    unfolding sa
    by (simp add: simple_agents_def simple_agent_loop_cong [of _ "e\<lparr>agentsDir := DirListing (take 10 files)\<rparr>" e])
  have keys: "set (Object_keys (snd (simple_agents e))) \<subseteq> set (take 10 files)"
    unfolding sa Object_keys_def
    using simple_agent_loop_keys [of e 0 "[]" "take 10 files"] by simp
  have two: "f \<notin> set (Object_keys (snd (simple_agents e))) \<and>
             map_of (snd (simple_agents e)) f = None" if "f \<notin> set (take 10 files)" for f
  proof -
    from that keys have "f \<notin> set (Object_keys (snd (simple_agents e)))" by blast
    then show ?thesis
      by (simp add: Object_keys_def map_of_eq_None_iff)
  qed
  have three: "simple_agents e' = simple_agents e"
    if "agentsDir e' = DirListing files'" and "take 10 files' = take 10 files"
      and "\<forall>f \<in> set (take 10 files). agentFile e' f = agentFile e f" for e' files'
    unfolding sa using that
    by (simp add: simple_agents_def simple_agent_loop_cong [of "take 10 files" e' e])
  show ?thesis
    using one two three by blast
qed

theorem simple_agents_first_ten_witness:
  "agentsDir twelve_agents_env =
     DirListing [''a01.md'', ''a02.md'', ''a03.md'', ''a04.md'', ''a05.md'', ''a06.md'',
                 ''a07.md'', ''a08.md'', ''a09.md'', ''a10.md'', ''a11.md'', ''a12.md''] \<and>
   ''a11.md'' \<notin> set (take 10 [''a01.md'', ''a02.md'', ''a03.md'', ''a04.md'', ''a05.md'',
                  ''a06.md'', ''a07.md'', ''a08.md'', ''a09.md'', ''a10.md'', ''a11.md'',
                  ''a12.md'']) \<and>
   map_of (snd (simple_agents twelve_agents_env)) ''a11.md'' = None \<and>
   map_of (snd (simple_agents twelve_agents_env)) ''a10.md'' = Some 10 \<and>
   fst (simple_agents twelve_agents_env) = 100 \<and>
   agentsDir ten_agents_env =
     DirListing [''a01.md'', ''a02.md'', ''a03.md'', ''a04.md'', ''a05.md'', ''a06.md'',
                 ''a07.md'', ''a08.md'', ''a09.md'', ''a10.md''] \<and>
   simple_agents ten_agents_env = simple_agents twelve_agents_env"
proof -
  let ?files = "[''a01.md'', ''a02.md'', ''a03.md'', ''a04.md'', ''a05.md'', ''a06.md'',
                 ''a07.md'', ''a08.md'', ''a09.md'', ''a10.md'', ''a11.md'', ''a12.md'']"
  let ?ten = "[''a01.md'', ''a02.md'', ''a03.md'', ''a04.md'', ''a05.md'', ''a06.md'',
               ''a07.md'', ''a08.md'', ''a09.md'', ''a10.md'']"
  have d: "agentsDir twelve_agents_env = DirListing ?files"
    by (simp add: twelve_agents_env_def sample_env_def)
  have n: "''a11.md'' \<notin> set (take 10 ?files)"
    by simp
  have a: "map_of (snd (simple_agents twelve_agents_env)) ''a11.md'' = None"
    using simple_agents_first_ten [OF d] n by blast
  have b: "map_of (snd (simple_agents twelve_agents_env)) ''a10.md'' = Some 10 \<and>
           fst (simple_agents twelve_agents_env) = 100"
    by (simp add: simple_agents_def simple_agent_step_def twelve_agents_env_def sample_env_def
          endsWith_def set_property_def estimateTokens_simple_def Let_def)
  have t: "agentsDir ten_agents_env = DirListing ?ten \<and> take 10 ?ten = take 10 ?files \<and>
           (\<forall>f \<in> set (take 10 ?files). agentFile ten_agents_env f = agentFile twelve_agents_env f)"
    by (simp add: ten_agents_env_def twelve_agents_env_def sample_env_def)
  have c: "simple_agents ten_agents_env = simple_agents twelve_agents_env"
    using simple_agents_first_ten [OF d] t by blast
  show ?thesis
    using d n a b t c by blast
qed

end
